theory Spec2Isabelle
  imports Complex_Main
begin

section \<open>Scalars, vectors and samples\<close>

text \<open>
  The bidirectional path tracer of \<^verbatim>\<open>PathVertex.cpp\<close> computes with \<^verbatim>\<open>float\<close> and
  \<^verbatim>\<open>Vec3f\<close>. A \<^verbatim>\<open>float\<close> is modelled by a \<^typ>\<open>real\<close> (exact arithmetic), a
  \<^verbatim>\<open>Vec3f\<close> by three reals; the product of two \<^verbatim>\<open>Vec3f\<close> is componentwise.
  Counters and indices (\<^verbatim>\<open>int s\<close>, \<^verbatim>\<open>int t\<close>, \<^verbatim>\<open>int i\<close>) index arrays
  and are never negative in a call that stays inside its arrays; they are naturals here,
  and every subtraction that could go below zero in the source is guarded the way the
  source guards it.
\<close>

datatype Vec3f = Vec3f real real real

definition vzero :: Vec3f where
  "vzero = Vec3f 0 0 0"

definition vone :: Vec3f where
  "vone = Vec3f 1 1 1"

fun vmul :: "Vec3f \<Rightarrow> Vec3f \<Rightarrow> Vec3f" where
  "vmul (Vec3f a b c) (Vec3f x y z) = Vec3f (a * x) (b * y) (c * z)"

fun vscale :: "Vec3f \<Rightarrow> real \<Rightarrow> Vec3f" where
  "vscale (Vec3f a b c) k = Vec3f (a * k) (b * k) (c * k)"

fun vdivs :: "Vec3f \<Rightarrow> real \<Rightarrow> Vec3f" where
  "vdivs (Vec3f a b c) k = Vec3f (a / k) (b / k) (c / k)"

fun vneg :: "Vec3f \<Rightarrow> Vec3f" where
  "vneg (Vec3f a b c) = Vec3f (- a) (- b) (- c)"

fun vsub :: "Vec3f \<Rightarrow> Vec3f \<Rightarrow> Vec3f" where
  "vsub (Vec3f a b c) (Vec3f x y z) = Vec3f (a - x) (b - y) (c - z)"

fun dot :: "Vec3f \<Rightarrow> Vec3f \<Rightarrow> real" where
  "dot (Vec3f a b c) (Vec3f x y z) = a * x + b * y + c * z"

definition vlength :: "Vec3f \<Rightarrow> real" where
  "vlength v = sqrt (dot v v)"

type_synonym Vec2u = "nat \<times> nat"

text \<open>The random number generators are opaque services; a generator is its state.\<close>

type_synonym SampleGenerator = nat
type_synonym UniformSampler = nat
type_synonym IntersectionTemporary = nat
type_synonym MediumHandle = nat
type_synonym MediumState = nat

record PositionSample =
  ps_p :: Vec3f
  ps_Ng :: Vec3f
  ps_pdf :: real
  ps_weight :: Vec3f

record DirectionSample =
  ds_d :: Vec3f
  ds_pdf :: real
  ds_weight :: Vec3f

text \<open>
  Modelled from the spec: the constructor \<^verbatim>\<open>DirectionSample(d)\<close> is declared outside the
  sources at hand. A direction sample carries a direction, a pdf and a weight; the
  constructor sets the direction. The members it does not receive are given 0; no
  function below reads them.
\<close>

definition DirectionSample_of :: "Vec3f \<Rightarrow> DirectionSample" where
  "DirectionSample_of dir = \<lparr>ds_d = dir, ds_pdf = 0, ds_weight = vzero\<rparr>"

section \<open>Scatter events and the external collaborators\<close>

text \<open>
  A \<^verbatim>\<open>SurfaceScatterEvent\<close> keeps a pointer \<^verbatim>\<open>info\<close> to an intersection record.
  The pointer is modelled by the address it holds: the \<^verbatim>\<open>_record.surface.info\<close> member
  of the vertex stored at a given address, the \<^verbatim>\<open>info\<close> member of the
  \<^verbatim>\<open>SurfaceRecord record\<close> that is local to \<^verbatim>\<open>scatter\<close>, some other
  object, or null.
\<close>

datatype InfoPtr =
    InfoNull
  | InfoOfScatterLocal
  | InfoOfVertex nat
  | InfoElsewhere nat

text \<open>
  The shading frame is used through \<^verbatim>\<open>frame.toLocal\<close> only; a frame is that map.
\<close>

record SurfaceScatterEvent =
  ev_info :: InfoPtr
  ev_toLocal :: "Vec3f \<Rightarrow> Vec3f"
  ev_wi :: Vec3f
  ev_wo :: Vec3f
  ev_pdf :: real
  ev_throughput :: Vec3f

record VolumeScatterEvent =
  vol_p :: Vec3f
  vol_wi :: Vec3f
  vol_wo :: Vec3f
  vol_pdf :: real
  vol_throughput :: Vec3f

text \<open>
  Modelled from the spec: the query builders \<^verbatim>\<open>makeWarpedQuery(wi, wo)\<close> and
  \<^verbatim>\<open>makeFlippedQuery()\<close> of the two scatter events are declared outside the sources at
  hand. A warped query is the event with \<^verbatim>\<open>wi\<close> and \<^verbatim>\<open>wo\<close> replaced, a
  flipped query the event with \<^verbatim>\<open>wi\<close> and \<^verbatim>\<open>wo\<close> swapped.
\<close>

definition makeWarpedQuery :: "SurfaceScatterEvent \<Rightarrow> Vec3f \<Rightarrow> Vec3f \<Rightarrow> SurfaceScatterEvent" where
  "makeWarpedQuery e newWi newWo = e\<lparr>ev_wi := newWi, ev_wo := newWo\<rparr>"

definition makeFlippedQuery :: "SurfaceScatterEvent \<Rightarrow> SurfaceScatterEvent" where
  "makeFlippedQuery e = e\<lparr>ev_wi := ev_wo e, ev_wo := ev_wi e\<rparr>"

definition vol_makeWarpedQuery :: "VolumeScatterEvent \<Rightarrow> Vec3f \<Rightarrow> Vec3f \<Rightarrow> VolumeScatterEvent" where
  "vol_makeWarpedQuery e newWi newWo = e\<lparr>vol_wi := newWi, vol_wo := newWo\<rparr>"

definition vol_makeFlippedQuery :: "VolumeScatterEvent \<Rightarrow> VolumeScatterEvent" where
  "vol_makeFlippedQuery e = e\<lparr>vol_wi := vol_wo e, vol_wo := vol_wi e\<rparr>"

text \<open>
  The scene objects a vertex refers to (\<^verbatim>\<open>sampler.emitter\<close>, \<^verbatim>\<open>sampler.camera\<close>,
  \<^verbatim>\<open>sampler.bsdf\<close>, \<^verbatim>\<open>sampler.medium\<close>) are immutable during rendering; a handle
  is modelled by the behaviour of the object behind it. A method that writes through a
  reference parameter returns the new value of that parameter.
\<close>

record Bsdf =
  bsdf_pdf :: "SurfaceScatterEvent \<Rightarrow> real"
  bsdf_eval :: "SurfaceScatterEvent \<Rightarrow> Vec3f"

record Medium =
  phasePdf :: "VolumeScatterEvent \<Rightarrow> real"
  phaseEval :: "VolumeScatterEvent \<Rightarrow> Vec3f"

record Emitter =
  em_samplePosition :: "SampleGenerator \<Rightarrow> PositionSample \<Rightarrow> bool \<times> SampleGenerator \<times> PositionSample"
  em_sampleDirection ::
    "SampleGenerator \<Rightarrow> PositionSample \<Rightarrow> DirectionSample \<Rightarrow> bool \<times> SampleGenerator \<times> DirectionSample"
  evalDirectionalEmission :: "PositionSample \<Rightarrow> DirectionSample \<Rightarrow> Vec3f"
  directionalPdf :: "PositionSample \<Rightarrow> DirectionSample \<Rightarrow> real"

record Camera =
  cam_samplePosition :: "SampleGenerator \<Rightarrow> PositionSample \<Rightarrow> bool \<times> SampleGenerator \<times> PositionSample"
  cam_sampleDirection ::
    "SampleGenerator \<Rightarrow> PositionSample \<Rightarrow> Vec2u \<Rightarrow> DirectionSample \<Rightarrow> bool \<times> SampleGenerator \<times> DirectionSample"
  evalDirection ::
    "SampleGenerator \<Rightarrow> PositionSample \<Rightarrow> DirectionSample \<Rightarrow> Vec2u \<Rightarrow> bool \<times> SampleGenerator \<times> Vec3f \<times> Vec2u"
  directionPdf :: "PositionSample \<Rightarrow> DirectionSample \<Rightarrow> real"

record IntersectionInfo =
  ii_p :: Vec3f
  ii_Ng :: Vec3f
  ii_bsdf :: Bsdf

section \<open>Path vertices\<close>

text \<open>
  The per-kind records hold the members that \<^verbatim>\<open>PathVertex.cpp\<close> reads and writes. The
  selection weight of an emitter root multiplies the colour \<^verbatim>\<open>point.weight\<close>; it is
  a scalar here.
\<close>

record EmitterRootRecord =
  er_pdf :: real
  er_weight :: real
  er_point :: PositionSample

record CameraRootRecord =
  cr_pixel :: Vec2u
  cr_point :: PositionSample

record EmitterRecord =
  e_point :: PositionSample
  e_direction :: DirectionSample

record CameraRecord =
  c_pixel :: Vec2u
  c_point :: PositionSample
  c_direction :: DirectionSample

record SurfaceRecord =
  s_event :: SurfaceScatterEvent
  s_data :: IntersectionTemporary
  s_info :: IntersectionInfo

text \<open>
  \<^verbatim>\<open>PathVertex\<close> is a tagged union: the tag \<^verbatim>\<open>type\<close>, the union \<^verbatim>\<open>sampler\<close> of
  handles and the union \<^verbatim>\<open>_record\<close> of per-kind records. Every \<^verbatim>\<open>switch\<close> of the
  source reads the arms that belong to the tag, so the three are one constructor here;
  the \<^verbatim>\<open>default\<close> arm of a \<^verbatim>\<open>switch\<close> has no tag to be taken with.
\<close>

datatype VertexKind =
    EmitterRoot Emitter EmitterRootRecord
  | CameraRoot Camera CameraRootRecord
  | EmitterVertex Emitter EmitterRecord
  | CameraVertex Camera CameraRecord
  | SurfaceVertex Bsdf SurfaceRecord
  | VolumeVertex Medium VolumeScatterEvent

record PathVertex =
  kind :: VertexKind
  throughput :: Vec3f
  pdfForward :: real
  pdfBackward :: real

definition weight :: "PathVertex \<Rightarrow> Vec3f" where
  "weight v = (case kind v of
      EmitterRoot em r \<Rightarrow> vscale (ps_weight (er_point r)) (er_weight r)
    | CameraRoot cam r \<Rightarrow> ps_weight (cr_point r)
    | EmitterVertex em r \<Rightarrow> ds_weight (e_direction r)
    | CameraVertex cam r \<Rightarrow> ds_weight (c_direction r)
    | SurfaceVertex bsdf r \<Rightarrow> ev_throughput (s_event r)
    | VolumeVertex med r \<Rightarrow> vol_throughput r)"

definition pdf :: "PathVertex \<Rightarrow> real" where
  "pdf v = (case kind v of
      EmitterRoot em r \<Rightarrow> er_pdf r * ps_pdf (er_point r)
    | CameraRoot cam r \<Rightarrow> ps_pdf (cr_point r)
    | EmitterVertex em r \<Rightarrow> ds_pdf (e_direction r)
    | CameraVertex cam r \<Rightarrow> ds_pdf (c_direction r)
    | SurfaceVertex bsdf r \<Rightarrow> ev_pdf (s_event r)
    | VolumeVertex med r \<Rightarrow> vol_pdf r)"

definition reversePdf :: "PathVertex \<Rightarrow> real" where
  "reversePdf v = (case kind v of
      SurfaceVertex bsdf r \<Rightarrow> bsdf_pdf bsdf (makeFlippedQuery (s_event r))
    | VolumeVertex med r \<Rightarrow> phasePdf med (vol_makeFlippedQuery r)
    | _ \<Rightarrow> 0)"

definition eval :: "PathVertex \<Rightarrow> Vec3f \<Rightarrow> Vec3f" where
  "eval v dir = (case kind v of
      EmitterRoot em r \<Rightarrow> vzero
    | CameraRoot cam r \<Rightarrow> vzero
    | EmitterVertex em r \<Rightarrow> evalDirectionalEmission em (e_point r) (DirectionSample_of dir)
    | CameraVertex cam r \<Rightarrow> vzero
    | SurfaceVertex bsdf r \<Rightarrow>
        bsdf_eval bsdf (makeWarpedQuery (s_event r) (ev_wi (s_event r)) (ev_toLocal (s_event r) dir))
    | VolumeVertex med r \<Rightarrow> phaseEval med (vol_makeWarpedQuery r (vol_wi r) dir))"

definition pos :: "PathVertex \<Rightarrow> Vec3f" where
  "pos v = (case kind v of
      EmitterRoot em r \<Rightarrow> vzero
    | CameraRoot cam r \<Rightarrow> vzero
    | EmitterVertex em r \<Rightarrow> ps_p (e_point r)
    | CameraVertex cam r \<Rightarrow> ps_p (c_point r)
    | SurfaceVertex bsdf r \<Rightarrow> ii_p (s_info r)
    | VolumeVertex med r \<Rightarrow> vol_p r)"

definition cosineFactor :: "PathVertex \<Rightarrow> Vec3f \<Rightarrow> real" where
  "cosineFactor v dir = (case kind v of
      EmitterVertex em r \<Rightarrow> \<bar>dot (ps_Ng (e_point r)) dir\<bar>
    | CameraVertex cam r \<Rightarrow> \<bar>dot (ps_Ng (c_point r)) dir\<bar>
    | SurfaceVertex bsdf r \<Rightarrow> \<bar>dot (ii_Ng (s_info r)) dir\<bar>
    | _ \<Rightarrow> 1)"

section \<open>Path edges\<close>

record PathEdge =
  edge_d :: Vec3f
  edge_r :: real
  edge_rSq :: real

text \<open>
  Modelled from the spec: the constructor \<^verbatim>\<open>PathEdge(a, b)\<close> and \<^verbatim>\<open>reverse()\<close> are
  declared in \<^verbatim>\<open>PathVertex.hpp\<close>, which is not among the sources at hand. The edge from
  \<open>a\<close> to \<open>b\<close> has the direction \<open>normalize(b.pos() - a.pos())\<close>, the distance
  \<open>r = |b.pos() - a.pos()|\<close> and \<open>rSq = r * r\<close>; the reversed edge negates the
  direction.
\<close>

definition mkPathEdge :: "PathVertex \<Rightarrow> PathVertex \<Rightarrow> PathEdge" where
  "mkPathEdge a b =
     (let delta = vsub (pos b) (pos a); r = vlength delta
      in \<lparr>edge_d = vdivs delta r, edge_r = r, edge_rSq = r * r\<rparr>)"

definition reverse :: "PathEdge \<Rightarrow> PathEdge" where
  "reverse e = e\<lparr>edge_d := vneg (edge_d e)\<rparr>"

section \<open>Faults\<close>

text \<open>
  The source has no checked errors; what it has are accesses that leave the program
  undefined. Each of them is a value of the model: a read or a write through a null
  pointer, and an index outside a vertex array, an edge array or a scratch array.
\<close>

datatype fault =
    NullRead
  | NullWrite
  | OutOfRangeRead
  | OutOfRangeWrite
  | WrongRecordArm

definition ebind :: "fault + 'a \<Rightarrow> ('a \<Rightarrow> fault + 'b) \<Rightarrow> fault + 'b" where
  "ebind m f = (case m of Inl e \<Rightarrow> Inl e | Inr x \<Rightarrow> f x)"

section \<open>Forward and backward pdfs of a connection\<close>

text \<open>
  \<^verbatim>\<open>misWeight\<close> keeps two scratch arrays, \<^verbatim>\<open>pdfForward\<close> and \<^verbatim>\<open>pdfBackward\<close>,
  and hands pointers into them to \<^verbatim>\<open>evalPdfs\<close>. A \<^verbatim>\<open>float *\<close> is null, or the
  address of one slot of one of the two arrays.
\<close>

record Scratch =
  pdfForward_arr :: "real list"
  pdfBackward_arr :: "real list"

datatype FloatPtr =
    NullPtr
  | ForwardSlot nat
  | BackwardSlot nat

definition store :: "FloatPtr \<Rightarrow> real \<Rightarrow> Scratch \<Rightarrow> fault + Scratch" where
  "store ptr x m = (case ptr of
      NullPtr \<Rightarrow> Inl NullWrite
    | ForwardSlot i \<Rightarrow>
        if i < length (pdfForward_arr m)
        then Inr (m\<lparr>pdfForward_arr := (pdfForward_arr m)[i := x]\<rparr>)
        else Inl OutOfRangeWrite
    | BackwardSlot i \<Rightarrow>
        if i < length (pdfBackward_arr m)
        then Inr (m\<lparr>pdfBackward_arr := (pdfBackward_arr m)[i := x]\<rparr>)
        else Inl OutOfRangeWrite)"

text \<open>
  \<^verbatim>\<open>evalPdfs\<close>: \<open>prev\<close> and \<open>prevEdge\<close> are pointers that may be null
  (\<open>None\<close>); \<open>forward\<close> and \<open>backward\<close> are the two out-pointers. The statements of
  each arm run in the order of the source, the right-hand side of an assignment before
  its store.
\<close>

definition evalPdfs ::
  "PathVertex \<Rightarrow> PathVertex option \<Rightarrow> PathEdge option \<Rightarrow> PathVertex \<Rightarrow> PathEdge \<Rightarrow>
   FloatPtr \<Rightarrow> FloatPtr \<Rightarrow> Scratch \<Rightarrow> fault + Scratch" where
  "evalPdfs this prev prevEdge next nextEdge forward backward m = (case kind this of
      EmitterRoot em r \<Rightarrow> store forward (ps_pdf (er_point r)) m
    | CameraRoot cam r \<Rightarrow> store forward (ps_pdf (cr_point r)) m
    | EmitterVertex em r \<Rightarrow>
        ebind (store forward
                 (cosineFactor next (edge_d nextEdge) / edge_rSq nextEdge *
                  directionalPdf em (e_point r) (DirectionSample_of (edge_d nextEdge))) m)
          (store backward 1)
    | CameraVertex cam r \<Rightarrow>
        ebind (store forward
                 (cosineFactor next (edge_d nextEdge) / edge_rSq nextEdge *
                  directionPdf cam (c_point r) (DirectionSample_of (edge_d nextEdge))) m)
          (store backward 1)
    | SurfaceVertex bsdf r \<Rightarrow>
        (case prevEdge of
           None \<Rightarrow> Inl NullRead
         | Some pe \<Rightarrow>
             let event = s_event r;
                 dPrev = ev_toLocal event (vneg (edge_d pe));
                 dNext = ev_toLocal event (edge_d nextEdge)
             in ebind (store forward
                         (bsdf_pdf bsdf (makeWarpedQuery event dPrev dNext) *
                          cosineFactor next (edge_d nextEdge) / edge_rSq nextEdge) m)
                  (\<lambda>m1. case prev of
                      None \<Rightarrow> Inl NullRead
                    | Some pv \<Rightarrow>
                        store backward
                          (bsdf_pdf bsdf (makeWarpedQuery event dNext dPrev) *
                           cosineFactor pv (edge_d pe) / edge_rSq pe) m1))
    | VolumeVertex med event \<Rightarrow>
        (case prevEdge of
           None \<Rightarrow> Inl NullRead
         | Some pe \<Rightarrow>
             let dPrev = vneg (edge_d pe);
                 dNext = edge_d nextEdge
             in ebind (store forward
                         (phasePdf med (vol_makeWarpedQuery event dPrev dNext) *
                          cosineFactor next (edge_d nextEdge) / edge_rSq nextEdge) m)
                  (\<lambda>m1. case prev of
                      None \<Rightarrow> Inl NullRead
                    | Some pv \<Rightarrow>
                        store backward
                          (phasePdf med (vol_makeWarpedQuery event dNext dPrev) *
                           cosineFactor pv (edge_d pe) / edge_rSq pe) m1)))"

section \<open>Light paths and the MIS weight\<close>

text \<open>
  Modelled from the spec: \<^verbatim>\<open>LightPath\<close> is declared in \<^verbatim>\<open>PathVertex.hpp\<close>. It is an
  ordered sequence of vertices and of edges; \<^verbatim>\<open>path[i]\<close> is the \<open>i\<close>-th vertex and
  \<^verbatim>\<open>path.edge(i)\<close> the edge from vertex \<open>i\<close> to vertex \<open>i + 1\<close>. An index outside
  the sequence is a fault.
\<close>

record LightPath =
  vertices :: "PathVertex list"
  edges :: "PathEdge list"

definition vertex_at :: "LightPath \<Rightarrow> nat \<Rightarrow> fault + PathVertex" where
  "vertex_at path i = (if i < length (vertices path) then Inr (vertices path ! i) else Inl OutOfRangeRead)"

definition edge_at :: "LightPath \<Rightarrow> nat \<Rightarrow> fault + PathEdge" where
  "edge_at path i = (if i < length (edges path) then Inr (edges path ! i) else Inl OutOfRangeRead)"

text \<open>
  The first loop of \<^verbatim>\<open>misWeight\<close>:
  \<^verbatim>\<open>for (int i = 0; i <= s; ++i) { pdfForward[i] = emitter[i].pdfForward; pdfBackward[i] = emitter[i].pdfBackward; }\<close>
  An assignment to \<^verbatim>\<open>pdfForward[i]\<close> is a store through the address of slot \<open>i\<close>.
\<close>

function fillEmitter :: "LightPath \<Rightarrow> nat \<Rightarrow> nat \<Rightarrow> Scratch \<Rightarrow> fault + Scratch" where
  "fillEmitter emitter s i m =
     (if i \<le> s then
        (case vertex_at emitter i of
           Inl e \<Rightarrow> Inl e
         | Inr v \<Rightarrow>
             (case store (ForwardSlot i) (pdfForward v) m of
                Inl e \<Rightarrow> Inl e
              | Inr m1 \<Rightarrow>
                  (case store (BackwardSlot i) (pdfBackward v) m1 of
                     Inl e \<Rightarrow> Inl e
                   | Inr m2 \<Rightarrow> fillEmitter emitter s (i + 1) m2)))
      else Inr m)"
  by pat_completeness auto
termination
  by (relation "measure (\<lambda>(emitter, s, i, m). Suc s - i)") auto

declare fillEmitter.simps [simp del]

text \<open>
  The second loop:
  \<^verbatim>\<open>for (int i = 0; i <= t; ++i) { pdfForward[numVerts - 1 - i] = camera[i].pdfBackward; pdfBackward[numVerts - 1 - i] = camera[i].pdfForward; }\<close>
\<close>

function fillCamera :: "LightPath \<Rightarrow> nat \<Rightarrow> nat \<Rightarrow> nat \<Rightarrow> Scratch \<Rightarrow> fault + Scratch" where
  "fillCamera camera numVerts t i m =
     (if i \<le> t then
        (case vertex_at camera i of
           Inl e \<Rightarrow> Inl e
         | Inr v \<Rightarrow>
             (case store (ForwardSlot (numVerts - 1 - i)) (pdfBackward v) m of
                Inl e \<Rightarrow> Inl e
              | Inr m1 \<Rightarrow>
                  (case store (BackwardSlot (numVerts - 1 - i)) (pdfForward v) m1 of
                     Inl e \<Rightarrow> Inl e
                   | Inr m2 \<Rightarrow> fillCamera camera numVerts t (i + 1) m2)))
      else Inr m)"
  by pat_completeness auto
termination
  by (relation "measure (\<lambda>(camera, numVerts, t, i, m). Suc t - i)") auto

declare fillCamera.simps [simp del]

text \<open>
  The two accumulation loops. \<open>pi_acc\<close> is the local \<^verbatim>\<open>pi\<close>, \<open>w\<close> the local
  \<^verbatim>\<open>weight\<close>.
  \<^verbatim>\<open>for (int i = s; i < s + t; ++i) { pi *= pdfForward[i + 1]/pdfBackward[i + 1]; weight += pi; }\<close>
  \<^verbatim>\<open>for (int i = s - 1; i >= 1; --i) { pi *= pdfBackward[i + 1]/pdfForward[i + 1]; weight += pi; }\<close>
\<close>

function cameraSideLoop :: "real list \<Rightarrow> real list \<Rightarrow> nat \<Rightarrow> nat \<Rightarrow> real \<Rightarrow> real \<Rightarrow> real" where
  "cameraSideLoop pF pB hi i pi_acc w =
     (if i < hi then
        (let pi1 = pi_acc * (pF ! (i + 1) / pB ! (i + 1))
         in cameraSideLoop pF pB hi (i + 1) pi1 (w + pi1))
      else w)"
  by pat_completeness auto
termination
  by (relation "measure (\<lambda>(pF, pB, hi, i, pi_acc, w). hi - i)") auto

fun emitterSideLoop :: "real list \<Rightarrow> real list \<Rightarrow> nat \<Rightarrow> real \<Rightarrow> real \<Rightarrow> real" where
  "emitterSideLoop pF pB i pi_acc w =
     (if i \<ge> 1 then
        (let pi1 = pi_acc * (pB ! (i + 1) / pF ! (i + 1))
         in emitterSideLoop pF pB (i - 1) pi1 (w + pi1))
      else w)"

declare cameraSideLoop.simps [simp del]
declare emitterSideLoop.simps [simp del]

text \<open>
  Lines 287 to 299: the weight from the two filled arrays. For \<open>s = 0\<close> the second loop
  starts at \<open>-1\<close> in the source and at \<open>0\<close> here; neither runs its body.
\<close>

definition misWeightSum :: "real list \<Rightarrow> real list \<Rightarrow> nat \<Rightarrow> nat \<Rightarrow> real" where
  "misWeightSum pF pB s t =
     (let w1 = cameraSideLoop pF pB (s + t) s 1 1;
          w2 = emitterSideLoop pF pB (s - 1) 1 w1
      in 1 / w2)"

text \<open>
  Lines 264 to 285: the scratch arrays after the two copy loops and the two calls of
  \<^verbatim>\<open>evalPdfs\<close>. \<^verbatim>\<open>alloca\<close> returns memory of arbitrary content; it is 0 here, and
  \<open>fill_overwrites\<close> below shows that the copy loops overwrite every slot, whatever
  it held. Every slot the accumulation loops read has an index of at most \<open>s + t\<close>,
  inside the arrays of \<open>s + t + 2\<close> slots (\<open>misWeightFill_size\<close>).
\<close>

definition misWeightFill :: "LightPath \<Rightarrow> LightPath \<Rightarrow> nat \<Rightarrow> nat \<Rightarrow> fault + Scratch" where
  "misWeightFill camera emitter s t =
     (let numVerts = (s + 1) + (t + 1);
          m0 = \<lparr>pdfForward_arr = replicate numVerts 0, pdfBackward_arr = replicate numVerts 0\<rparr>
      in ebind (fillEmitter emitter s 0 m0) (\<lambda>m1.
         ebind (fillCamera camera numVerts t 0 m1) (\<lambda>m2.
         ebind (vertex_at emitter s) (\<lambda>es.
         ebind (vertex_at camera t) (\<lambda>ct.
         let edge = mkPathEdge es ct in
         ebind (if s = 0 then Inr None else ebind (vertex_at emitter (s - 1)) (\<lambda>v. Inr (Some v))) (\<lambda>ePrev.
         ebind (if s = 0 then Inr None else ebind (edge_at emitter (s - 1)) (\<lambda>e. Inr (Some e))) (\<lambda>ePrevEdge.
         ebind (evalPdfs es ePrev ePrevEdge ct edge (ForwardSlot (s + 1))
                  (if s = 0 then NullPtr else BackwardSlot (s - 1)) m2) (\<lambda>m3.
         ebind (if t = 0 then Inr None else ebind (vertex_at camera (t - 1)) (\<lambda>v. Inr (Some v))) (\<lambda>cPrev.
         ebind (if t = 0 then Inr None else ebind (edge_at camera (t - 1)) (\<lambda>e. Inr (Some e))) (\<lambda>cPrevEdge.
         evalPdfs ct cPrev cPrevEdge es (reverse edge) (BackwardSlot s)
           (if t = 0 then NullPtr else ForwardSlot (s + 2)) m3))))))))))"

definition misWeight :: "LightPath \<Rightarrow> LightPath \<Rightarrow> nat \<Rightarrow> nat \<Rightarrow> fault + real" where
  "misWeight camera emitter s t =
     ebind (misWeightFill camera emitter s t)
       (\<lambda>m. Inr (misWeightSum (pdfForward_arr m) (pdfBackward_arr m) s t))"

text \<open>
  The weight as the specification words it (steps 5 to 7 of its algorithm): \<open>weight\<close>
  starts at 1; for \<open>i = s \<dots> s + t - 1\<close> the running product of
  \<open>pdfForward[i + 1] / pdfBackward[i + 1]\<close> is accumulated; then, from 1 again, for
  \<open>i = s - 1 \<dots> 1\<close> the running product of \<open>pdfBackward[i + 1] / pdfForward[i + 1]\<close>;
  the result is \<open>1 / weight\<close>. The running product at step \<open>j\<close> of a loop is the
  product of the ratios of all steps from the loop's first to \<open>j\<close>.
\<close>

definition fwdRatio :: "real list \<Rightarrow> real list \<Rightarrow> nat \<Rightarrow> real" where
  "fwdRatio pF pB i = pF ! (i + 1) / pB ! (i + 1)"

definition bwdRatio :: "real list \<Rightarrow> real list \<Rightarrow> nat \<Rightarrow> real" where
  "bwdRatio pF pB i = pB ! (i + 1) / pF ! (i + 1)"

definition misWeight_spec :: "real list \<Rightarrow> real list \<Rightarrow> nat \<Rightarrow> nat \<Rightarrow> real" where
  "misWeight_spec pF pB s t =
     1 / (1 + (\<Sum>j = s..<s + t. \<Prod>i = s..j. fwdRatio pF pB i)
            + (\<Sum>j = 1..s - 1. \<Prod>i = j..s - 1. bwdRatio pF pB i))"

text \<open>
  The density of the sampling strategy that splits a path after vertex \<open>m\<close>, relative to
  the one that splits after vertex 1: the product of \<open>pdfForward[k] / pdfBackward[k]\<close>
  over the vertices \<open>2 \<dots> m\<close> that move from the camera side to the emitter side.
\<close>

definition pdfRatio :: "real list \<Rightarrow> real list \<Rightarrow> nat \<Rightarrow> real" where
  "pdfRatio pF pB k = pF ! k / pB ! k"

definition splitDensity :: "real list \<Rightarrow> real list \<Rightarrow> nat \<Rightarrow> real" where
  "splitDensity pF pB m = (\<Prod>k = 2..m. pdfRatio pF pB k)"

section \<open>Connections\<close>

text \<open>
  Modelled from the spec: \<^verbatim>\<open>Ray\<close> is declared outside the sources at hand; a ray
  carries a near-far window. \<^verbatim>\<open>Ray(pos, dir)\<close> leaves the window to the constructor's
  defaults (\<open>None\<close>); \<^verbatim>\<open>Ray(pos, dir, nearT, farT)\<close> sets it. \<^verbatim>\<open>1e-4f\<close> is
  \<open>1 / 10000\<close>.
\<close>

record Ray =
  ray_pos :: Vec3f
  ray_dir :: Vec3f
  ray_window :: "(real \<times> real) option"
  ray_primary :: bool

definition Ray2 :: "Vec3f \<Rightarrow> Vec3f \<Rightarrow> Ray" where
  "Ray2 p dir = \<lparr>ray_pos = p, ray_dir = dir, ray_window = None, ray_primary = False\<rparr>"

definition Ray4 :: "Vec3f \<Rightarrow> Vec3f \<Rightarrow> real \<Rightarrow> real \<Rightarrow> Ray" where
  "Ray4 p dir nearT farT = \<lparr>ray_pos = p, ray_dir = dir, ray_window = Some (nearT, farT), ray_primary = False\<rparr>"

definition setPrimaryRay :: "Ray \<Rightarrow> bool \<Rightarrow> Ray" where
  "setPrimaryRay ray b = ray\<lparr>ray_primary := b\<rparr>"

text \<open>
  The scene is a parameter: \<^verbatim>\<open>intersect(ray, data, info)\<close> returns whether the ray
  hit, and what it left in its three reference parameters; \<^verbatim>\<open>occluded(ray)\<close> is the
  shadow test.
\<close>

record Scene =
  intersect :: "Ray \<Rightarrow> bool \<times> Ray \<times> IntersectionTemporary \<times> IntersectionInfo"
  occluded :: "Ray \<Rightarrow> bool"

text \<open>\<^verbatim>\<open>Vec3f LightPath::connect(scene, a, b)\<close>, lines 237 to 244.\<close>

definition connect :: "Scene \<Rightarrow> PathVertex \<Rightarrow> PathVertex \<Rightarrow> Vec3f" where
  "connect scene a b =
     (let edge = mkPathEdge a b
      in if occluded scene (Ray4 (pos a) (edge_d edge) (1 / 10000) (edge_r edge * (1 - 1 / 10000)))
         then vzero
         else vdivs (vmul (vmul (vmul (throughput a) (eval a (edge_d edge)))
                                (eval b (vneg (edge_d edge))))
                          (throughput b))
                    (edge_rSq edge))"

text \<open>
  \<^verbatim>\<open>bool LightPath::connect(scene, a, b, sampler, weight, pixel)\<close>, lines 246 to 260.
  The result holds the returned flag, the generator and the pixel after the call, and
  what was assigned to the out-parameter \<^verbatim>\<open>weight\<close>: \<open>None\<close> when no assignment ran.
  The function reads the camera arms of \<open>a\<close> without a look at its tag.
\<close>

record SplatResult =
  cs_ok :: bool
  cs_sampler :: SampleGenerator
  cs_weight :: "Vec3f option"
  cs_pixel :: Vec2u

definition connect_splat ::
  "Scene \<Rightarrow> PathVertex \<Rightarrow> PathVertex \<Rightarrow> SampleGenerator \<Rightarrow> Vec2u \<Rightarrow> fault + SplatResult" where
  "connect_splat scene a b sampler pixel =
     (let edge = mkPathEdge a b
      in if occluded scene (Ray4 (pos a) (edge_d edge) (1 / 10000) (edge_r edge * (1 - 1 / 10000)))
         then Inr \<lparr>cs_ok = False, cs_sampler = sampler, cs_weight = None, cs_pixel = pixel\<rparr>
         else (case kind a of
             CameraVertex cam r \<Rightarrow>
               (case evalDirection cam sampler (c_point r) (DirectionSample_of (edge_d edge)) pixel of
                  (ok, sampler1, splatWeight, pixel1) \<Rightarrow>
                    if \<not> ok
                    then Inr \<lparr>cs_ok = False, cs_sampler = sampler1, cs_weight = None, cs_pixel = pixel1\<rparr>
                    else Inr \<lparr>cs_ok = True, cs_sampler = sampler1,
                              cs_weight = Some (vdivs (vmul (vmul (vmul splatWeight (throughput a))
                                                                  (eval b (vneg (edge_d edge))))
                                                            (throughput b))
                                                      (edge_rSq edge)),
                              cs_pixel = pixel1\<rparr>)
           | _ \<Rightarrow> Inl WrongRecordArm))"

section \<open>Extending a path: scatter\<close>

record TraceState =
  st_sampler :: SampleGenerator
  st_supplementalSampler :: UniformSampler
  st_medium :: MediumHandle
  st_wasSpecular :: bool
  st_ray :: Ray
  st_bounce :: int
  st_mediumState :: MediumState

text \<open>
  Modelled from the spec: the tracer helper \<^verbatim>\<open>TraceBase\<close> is declared outside the
  sources at hand. \<^verbatim>\<open>handleSurface\<close> receives eleven arguments that it may write
  (they go in and come out as one record), the bounce count and the literal
  \<^verbatim>\<open>false\<close>; the bounce count is an input of \<^verbatim>\<open>handleSurface\<close> (a counter passed
  by value), not one of its outputs. \<^verbatim>\<open>makeLocalScatterEvent\<close> returns the event,
  with what it left in the five objects it was handed.
\<close>

record SurfaceCall =
  hs_event :: SurfaceScatterEvent
  hs_data :: IntersectionTemporary
  hs_info :: IntersectionInfo
  hs_sampler :: SampleGenerator
  hs_supplementalSampler :: UniformSampler
  hs_medium :: MediumHandle
  hs_ray :: Ray
  hs_scatterWeight :: Vec3f
  hs_emission :: Vec3f
  hs_wasSpecular :: bool
  hs_mediumState :: MediumState

record LocalEvent =
  le_event :: SurfaceScatterEvent
  le_data :: IntersectionTemporary
  le_info :: IntersectionInfo
  le_ray :: Ray
  le_sampler :: SampleGenerator
  le_supplementalSampler :: UniformSampler

record Tracer =
  handleSurface :: "SurfaceCall \<Rightarrow> int \<Rightarrow> bool \<Rightarrow> bool \<times> SurfaceCall"
  makeLocalScatterEvent ::
    "IntersectionTemporary \<Rightarrow> IntersectionInfo \<Rightarrow> Ray \<Rightarrow> SampleGenerator \<Rightarrow> UniformSampler \<Rightarrow> LocalEvent"

text \<open>
  Modelled from the spec: the constructors of \<^verbatim>\<open>PathVertex\<close> and of the endpoint
  records are declared in \<^verbatim>\<open>PathVertex.hpp\<close>, which is not among the sources at hand
  (construction is by explicit factory per kind). Each sets the tag, the handle, the
  record and the throughput it is given; the members it is not given are 0 here, and
  \<^verbatim>\<open>scatter\<close> assigns \<^verbatim>\<open>pdfForward\<close> before it returns.
\<close>

definition EmitterRecord_of :: "PositionSample \<Rightarrow> EmitterRecord" where
  "EmitterRecord_of point = \<lparr>e_point = point, e_direction = DirectionSample_of vzero\<rparr>"

definition CameraRecord_of :: "Vec2u \<Rightarrow> PositionSample \<Rightarrow> CameraRecord" where
  "CameraRecord_of pixel point = \<lparr>c_pixel = pixel, c_point = point, c_direction = DirectionSample_of vzero\<rparr>"

definition mkPathVertex :: "VertexKind \<Rightarrow> Vec3f \<Rightarrow> PathVertex" where
  "mkPathVertex k thr = \<lparr>kind = k, throughput = thr, pdfForward = 0, pdfBackward = 0\<rparr>"

text \<open>
  What a call of \<^verbatim>\<open>scatter\<close> leaves behind: the returned flag, the vertex itself (the
  samplers write into its record), the trace state, the vertex behind \<^verbatim>\<open>prev\<close>, and
  what was assigned to the out-parameters \<^verbatim>\<open>next\<close> and \<^verbatim>\<open>nextEdge\<close>
  (\<open>None\<close>: no assignment ran). \<^verbatim>\<open>this\<close>, \<^verbatim>\<open>*prev\<close> and \<^verbatim>\<open>next\<close> are
  three distinct objects, as they are three slots of the path's vertex array.
\<close>

record ScatterResult =
  sr_ok :: bool
  sr_this :: PathVertex
  sr_state :: TraceState
  sr_prev :: "PathVertex option"
  sr_next :: "PathVertex option"
  sr_nextEdge :: "PathEdge option"

text \<open>
  The \<^verbatim>\<open>switch\<close> of \<^verbatim>\<open>scatter\<close> (lines 62 to 124) either returns, or breaks out
  to the shared tail with the local \<^verbatim>\<open>pdf\<close> set.
\<close>

datatype SwitchExit =
    Return ScatterResult
  | Break real PathVertex TraceState "PathVertex option"

definition scatterFailed :: "PathVertex \<Rightarrow> TraceState \<Rightarrow> PathVertex option \<Rightarrow> ScatterResult" where
  "scatterFailed this state prev =
     \<lparr>sr_ok = False, sr_this = this, sr_state = state, sr_prev = prev, sr_next = None, sr_nextEdge = None\<rparr>"

definition scatterSwitch ::
  "Tracer \<Rightarrow> PathVertex \<Rightarrow> TraceState \<Rightarrow> PathVertex option \<Rightarrow> PathEdge option \<Rightarrow> fault + SwitchExit" where
  "scatterSwitch tracer this state prev prevEdge = (case kind this of
      EmitterRoot em r \<Rightarrow>
        (case em_samplePosition em (st_sampler state) (er_point r) of
           (ok, sampler1, point1) \<Rightarrow>
             let this1 = this\<lparr>kind := EmitterRoot em (r\<lparr>er_point := point1\<rparr>)\<rparr>;
                 state1 = state\<lparr>st_sampler := sampler1\<rparr>
             in if \<not> ok then Inr (Return (scatterFailed this1 state1 prev))
                else
                  let next0 = mkPathVertex (EmitterVertex em (EmitterRecord_of point1)) (weight this1);
                      nextEdge = mkPathEdge this1 next0;
                      next1 = next0\<lparr>pdfForward := ps_pdf point1\<rparr>
                  in Inr (Return \<lparr>sr_ok = True, sr_this = this1, sr_state = state1, sr_prev = prev,
                                  sr_next = Some next1, sr_nextEdge = Some nextEdge\<rparr>))
    | CameraRoot cam r \<Rightarrow>
        (case cam_samplePosition cam (st_sampler state) (cr_point r) of
           (ok, sampler1, point1) \<Rightarrow>
             let this1 = this\<lparr>kind := CameraRoot cam (r\<lparr>cr_point := point1\<rparr>)\<rparr>;
                 state1 = state\<lparr>st_sampler := sampler1\<rparr>
             in if \<not> ok then Inr (Return (scatterFailed this1 state1 prev))
                else
                  let next0 = mkPathVertex (CameraVertex cam (CameraRecord_of (cr_pixel r) point1)) (weight this1);
                      nextEdge = mkPathEdge this1 next0;
                      next1 = next0\<lparr>pdfForward := ps_pdf point1\<rparr>
                  in Inr (Return \<lparr>sr_ok = True, sr_this = this1, sr_state = state1, sr_prev = prev,
                                  sr_next = Some next1, sr_nextEdge = Some nextEdge\<rparr>))
    | EmitterVertex em r \<Rightarrow>
        (case em_sampleDirection em (st_sampler state) (e_point r) (e_direction r) of
           (ok, sampler1, direction1) \<Rightarrow>
             let this1 = this\<lparr>kind := EmitterVertex em (r\<lparr>e_direction := direction1\<rparr>)\<rparr>;
                 state1 = state\<lparr>st_sampler := sampler1\<rparr>
             in if \<not> ok then Inr (Return (scatterFailed this1 state1 prev))
                else (case prev of
                    None \<Rightarrow> Inl NullWrite
                  | Some pv \<Rightarrow>
                      Inr (Break (ds_pdf direction1) this1
                             (state1\<lparr>st_ray := Ray2 (ps_p (e_point r)) (ds_d direction1)\<rparr>)
                             (Some (pv\<lparr>pdfBackward := 1\<rparr>)))))
    | CameraVertex cam r \<Rightarrow>
        (case cam_sampleDirection cam (st_sampler state) (c_point r) (c_pixel r) (c_direction r) of
           (ok, sampler1, direction1) \<Rightarrow>
             let this1 = this\<lparr>kind := CameraVertex cam (r\<lparr>c_direction := direction1\<rparr>)\<rparr>;
                 state1 = state\<lparr>st_sampler := sampler1\<rparr>
             in if \<not> ok then Inr (Return (scatterFailed this1 state1 prev))
                else (case prev of
                    None \<Rightarrow> Inl NullWrite
                  | Some pv \<Rightarrow>
                      Inr (Break (ds_pdf direction1) this1
                             (state1\<lparr>st_ray := setPrimaryRay (Ray2 (ps_p (c_point r)) (ds_d direction1)) True\<rparr>)
                             (Some (pv\<lparr>pdfBackward := 1\<rparr>)))))
    | SurfaceVertex bsdf r \<Rightarrow>
        (case handleSurface tracer
                \<lparr>hs_event = s_event r, hs_data = s_data r, hs_info = s_info r,
                 hs_sampler = st_sampler state, hs_supplementalSampler = st_supplementalSampler state,
                 hs_medium = st_medium state, hs_ray = st_ray state,
                 hs_scatterWeight = vone, hs_emission = vzero,
                 hs_wasSpecular = st_wasSpecular state, hs_mediumState = st_mediumState state\<rparr>
                (st_bounce state) False of
           (scattered, out) \<Rightarrow>
             let this1 = this\<lparr>kind := SurfaceVertex bsdf
                               \<lparr>s_event = hs_event out, s_data = hs_data out, s_info = hs_info out\<rparr>\<rparr>;
                 state1 = state\<lparr>st_sampler := hs_sampler out,
                                 st_supplementalSampler := hs_supplementalSampler out,
                                 st_medium := hs_medium out, st_wasSpecular := hs_wasSpecular out,
                                 st_ray := hs_ray out, st_mediumState := hs_mediumState out\<rparr>
             in if \<not> scattered then Inr (Return (scatterFailed this1 state1 prev))
                else (case prev of
                    None \<Rightarrow> Inl NullRead
                  | Some pv \<Rightarrow>
                      (case prevEdge of
                         None \<Rightarrow> Inl NullRead
                       | Some pe \<Rightarrow>
                           Inr (Break (ev_pdf (hs_event out)) this1 state1
                                  (Some (pv\<lparr>pdfBackward :=
                                     reversePdf this1 * cosineFactor pv (edge_d pe) / edge_rSq pe\<rparr>))))))
    | VolumeVertex med r \<Rightarrow> Inr (Return (scatterFailed this state prev)))"

text \<open>
  The shared tail (lines 126 to 140). \<open>nextAddr\<close> is the address of the object the
  reference \<^verbatim>\<open>next\<close> is bound to.
\<close>

definition scatterTail ::
  "Scene \<Rightarrow> Tracer \<Rightarrow> nat \<Rightarrow> real \<Rightarrow> PathVertex \<Rightarrow> TraceState \<Rightarrow> PathVertex option \<Rightarrow> ScatterResult" where
  "scatterTail scene tracer nextAddr pdf0 this state prev =
     (case intersect scene (st_ray state) of
        (didHit, ray1, data, info) \<Rightarrow>
          let state1 = state\<lparr>st_ray := ray1\<rparr>
          in if \<not> didHit then scatterFailed this state1 prev
             else
               let le = makeLocalScatterEvent tracer data info ray1
                          (st_sampler state1) (st_supplementalSampler state1);
                   record = \<lparr>s_event = le_event le, s_data = le_data le, s_info = le_info le\<rparr>;
                   state2 = state1\<lparr>st_ray := le_ray le, st_sampler := le_sampler le,
                                    st_supplementalSampler := le_supplementalSampler le\<rparr>;
                   next0 = mkPathVertex (SurfaceVertex (ii_bsdf (s_info record)) record)
                             (vmul (throughput this) (weight this));
                   next1 = next0\<lparr>kind := SurfaceVertex (ii_bsdf (s_info record))
                                     (record\<lparr>s_event := (s_event record)\<lparr>ev_info := InfoOfVertex nextAddr\<rparr>\<rparr>)\<rparr>;
                   state3 = state2\<lparr>st_bounce := st_bounce state2 + 1\<rparr>;
                   nextEdge = mkPathEdge this next1;
                   next2 = next1\<lparr>pdfForward := pdf0 * cosineFactor next1 (edge_d nextEdge) / edge_rSq nextEdge\<rparr>
               in \<lparr>sr_ok = True, sr_this = this, sr_state = state3, sr_prev = prev,
                   sr_next = Some next2, sr_nextEdge = Some nextEdge\<rparr>)"

definition scatter ::
  "Scene \<Rightarrow> Tracer \<Rightarrow> nat \<Rightarrow> PathVertex \<Rightarrow> TraceState \<Rightarrow> PathVertex option \<Rightarrow> PathEdge option \<Rightarrow>
   fault + ScatterResult" where
  "scatter scene tracer nextAddr this state prev prevEdge =
     ebind (scatterSwitch tracer this state prev prevEdge) (\<lambda>exit.
       case exit of
         Return res \<Rightarrow> Inr res
       | Break pdf0 this1 state1 prev1 \<Rightarrow> Inr (scatterTail scene tracer nextAddr pdf0 this1 state1 prev1))"

section \<open>A small scene for concrete runs\<close>

text \<open>
  Collaborators with constant answers, and vertices on the x axis at distance 1 from
  each other, all with the geometric normal along the axis.
\<close>

definition unitX :: Vec3f where
  "unitX = Vec3f 1 0 0"

definition exPoint :: "Vec3f \<Rightarrow> PositionSample" where
  "exPoint p = \<lparr>ps_p = p, ps_Ng = unitX, ps_pdf = 1, ps_weight = vone\<rparr>"

definition exDirection :: DirectionSample where
  "exDirection = \<lparr>ds_d = unitX, ds_pdf = 3, ds_weight = Vec3f 2 2 2\<rparr>"

definition exEmitter :: Emitter where
  "exEmitter =
     \<lparr>em_samplePosition = (\<lambda>smp pt. (True, smp + 1, exPoint vzero)),
      em_sampleDirection = (\<lambda>smp pt dir. (True, smp + 1, exDirection)),
      evalDirectionalEmission = (\<lambda>pt dir. vone),
      directionalPdf = (\<lambda>pt dir. 2)\<rparr>"

definition exCamera :: Camera where
  "exCamera =
     \<lparr>cam_samplePosition = (\<lambda>smp pt. (True, smp + 1, exPoint vzero)),
      cam_sampleDirection = (\<lambda>smp pt px dir. (True, smp + 1, exDirection)),
      evalDirection = (\<lambda>smp pt dir px. (ds_d dir = unitX, smp + 1, Vec3f 5 5 5, (7, 8))),
      directionPdf = (\<lambda>pt dir. 1)\<rparr>"

definition exBsdf :: Bsdf where
  "exBsdf = \<lparr>bsdf_pdf = (\<lambda>q. 1), bsdf_eval = (\<lambda>q. vone)\<rparr>"

definition exMedium :: Medium where
  "exMedium = \<lparr>phasePdf = (\<lambda>q. 1), phaseEval = (\<lambda>q. vone)\<rparr>"

definition exEmitterRoot :: PathVertex where
  "exEmitterRoot =
     \<lparr>kind = EmitterRoot exEmitter \<lparr>er_pdf = 1, er_weight = 1, er_point = exPoint vzero\<rparr>,
      throughput = vone, pdfForward = 1, pdfBackward = 1\<rparr>"

definition exCameraRoot :: PathVertex where
  "exCameraRoot =
     \<lparr>kind = CameraRoot exCamera \<lparr>cr_pixel = (0, 0), cr_point = exPoint vzero\<rparr>,
      throughput = vone, pdfForward = 1, pdfBackward = 1\<rparr>"

definition exEmitterVertex :: PathVertex where
  "exEmitterVertex =
     \<lparr>kind = EmitterVertex exEmitter \<lparr>e_point = exPoint vzero, e_direction = exDirection\<rparr>,
      throughput = vone, pdfForward = 1, pdfBackward = 1\<rparr>"

definition exCameraVertex :: PathVertex where
  "exCameraVertex =
     \<lparr>kind = CameraVertex exCamera \<lparr>c_pixel = (0, 0), c_point = exPoint unitX, c_direction = exDirection\<rparr>,
      throughput = vone, pdfForward = 1, pdfBackward = 2\<rparr>"

definition exVolumeVertex :: PathVertex where
  "exVolumeVertex =
     \<lparr>kind = VolumeVertex exMedium
               \<lparr>vol_p = unitX, vol_wi = unitX, vol_wo = unitX, vol_pdf = 1, vol_throughput = vone\<rparr>,
      throughput = vone, pdfForward = 2, pdfBackward = 1\<rparr>"

definition exEdge :: PathEdge where
  "exEdge = \<lparr>edge_d = unitX, edge_r = 1, edge_rSq = 1\<rparr>"

text \<open>
  Two pairs of paths over four slots: for \<open>s = 1\<close> an emitter endpoint that is
  connected to a camera endpoint at distance 1 (\<open>t = 1\<close>), otherwise an emitter path
  of three vertices that is connected to a camera root (\<open>s = 2\<close>, \<open>t = 0\<close>).
\<close>

definition exEmitterPath :: "nat \<Rightarrow> LightPath" where
  "exEmitterPath s =
     (if s = 1 then \<lparr>vertices = [exEmitterRoot, exEmitterVertex], edges = [exEdge]\<rparr>
      else \<lparr>vertices = [exEmitterRoot, exEmitterVertex, exVolumeVertex], edges = [exEdge, exEdge]\<rparr>)"

definition exCameraPath :: "nat \<Rightarrow> LightPath" where
  "exCameraPath s =
     (if s = 1 then \<lparr>vertices = [exCameraRoot, exCameraVertex], edges = [exEdge]\<rparr>
      else \<lparr>vertices = [exCameraRoot], edges = []\<rparr>)"

text \<open>
  A scene whose rays along the x axis hit a surface at distance 1 and where nothing is
  occluded, a scene where every ray misses and every shadow ray is blocked, and a tracer
  whose local scatter event points at the intersection record it was handed (the one
  local to \<^verbatim>\<open>scatter\<close>).
\<close>

definition exInfo :: IntersectionInfo where
  "exInfo = \<lparr>ii_p = unitX, ii_Ng = unitX, ii_bsdf = exBsdf\<rparr>"

definition exEvent :: SurfaceScatterEvent where
  "exEvent =
     \<lparr>ev_info = InfoOfScatterLocal, ev_toLocal = (\<lambda>v. v), ev_wi = unitX, ev_wo = unitX,
      ev_pdf = 1, ev_throughput = vone\<rparr>"

definition exScene :: Scene where
  "exScene = \<lparr>intersect = (\<lambda>ray. (ray_dir ray = unitX, ray, 0, exInfo)), occluded = (\<lambda>ray. False)\<rparr>"

definition exDark :: Scene where
  "exDark = \<lparr>intersect = (\<lambda>ray. (False, ray, 0, exInfo)), occluded = (\<lambda>ray. True)\<rparr>"

definition exTracer :: Tracer where
  "exTracer =
     \<lparr>handleSurface = (\<lambda>call bounce adjoint. (True, call)),
      makeLocalScatterEvent = (\<lambda>data info ray smp sup.
        \<lparr>le_event = exEvent, le_data = data, le_info = info, le_ray = ray,
         le_sampler = smp, le_supplementalSampler = sup\<rparr>)\<rparr>"

definition exState :: TraceState where
  "exState =
     \<lparr>st_sampler = 0, st_supplementalSampler = 0, st_medium = 0, st_wasSpecular = False,
      st_ray = Ray2 vzero unitX, st_bounce = 0, st_mediumState = 0\<rparr>"

definition exSurfaceVertex :: PathVertex where
  "exSurfaceVertex =
     \<lparr>kind = SurfaceVertex exBsdf \<lparr>s_event = exEvent, s_data = 0, s_info = exInfo\<rparr>,
      throughput = vone, pdfForward = 1, pdfBackward = 1\<rparr>"

section \<open>Shapes of the scratch memory\<close>

text \<open>
  Both scratch arrays hold \<open>n\<close> floats; a pointer is usable when it is not null and
  points into its array; \<^verbatim>\<open>evalPdfs\<close> reads through \<^verbatim>\<open>prev\<close> and \<^verbatim>\<open>prevEdge\<close>
  on a surface or a volume vertex only.
\<close>

definition scratchSize :: "Scratch \<Rightarrow> nat \<Rightarrow> bool" where
  "scratchSize m n = (length (pdfForward_arr m) = n \<and> length (pdfBackward_arr m) = n)"

definition usablePtr :: "FloatPtr \<Rightarrow> nat \<Rightarrow> bool" where
  "usablePtr ptr n = (case ptr of NullPtr \<Rightarrow> False | ForwardSlot i \<Rightarrow> i < n | BackwardSlot i \<Rightarrow> i < n)"

definition deref :: "FloatPtr \<Rightarrow> Scratch \<Rightarrow> real option" where
  "deref ptr m = (case ptr of
      NullPtr \<Rightarrow> None
    | ForwardSlot i \<Rightarrow> if i < length (pdfForward_arr m) then Some (pdfForward_arr m ! i) else None
    | BackwardSlot i \<Rightarrow> if i < length (pdfBackward_arr m) then Some (pdfBackward_arr m ! i) else None)"

definition isEndpoint :: "PathVertex \<Rightarrow> bool" where
  "isEndpoint v = (case kind v of EmitterVertex em r \<Rightarrow> True | CameraVertex cam r \<Rightarrow> True | _ \<Rightarrow> False)"

definition readsPrev :: "PathVertex \<Rightarrow> bool" where
  "readsPrev v = (case kind v of SurfaceVertex bsdf r \<Rightarrow> True | VolumeVertex med r \<Rightarrow> True | _ \<Rightarrow> False)"

definition noWriteFault :: "fault + 'a \<Rightarrow> bool" where
  "noWriteFault r = (r \<noteq> Inl NullWrite \<and> r \<noteq> Inl OutOfRangeWrite)"


section \<open>The accumulation loops of misWeight\<close>

lemma cameraSideLoop_sum:
  "cameraSideLoop pF pB hi i p w = w + (\<Sum>j = i..<hi. p * (\<Prod>k = i..j. fwdRatio pF pB k))"
proof (induction pF pB hi i p w rule: cameraSideLoop.induct)
  case (1 pF pB hi i p w)
  show ?case
  proof (cases "i < hi")
    case False
    then show ?thesis by (subst cameraSideLoop.simps) simp
  next
    case True
    have split: "(\<Prod>k = i..j. fwdRatio pF pB k) = fwdRatio pF pB i * (\<Prod>k = Suc i..j. fwdRatio pF pB k)"
      if "i \<le> j" for j
      using that by (simp add: prod.atLeast_Suc_atMost)
    have "(\<Sum>j = i..<hi. p * (\<Prod>k = i..j. fwdRatio pF pB k))
        = p * fwdRatio pF pB i + (\<Sum>j = Suc i..<hi. p * (\<Prod>k = i..j. fwdRatio pF pB k))"
      using True by (simp add: sum.atLeast_Suc_lessThan)
    also have "(\<Sum>j = Suc i..<hi. p * (\<Prod>k = i..j. fwdRatio pF pB k))
        = (\<Sum>j = Suc i..<hi. p * fwdRatio pF pB i * (\<Prod>k = Suc i..j. fwdRatio pF pB k))"
      by (rule sum.cong) (simp_all add: split)
    finally have eq: "(\<Sum>j = i..<hi. p * (\<Prod>k = i..j. fwdRatio pF pB k))
        = p * fwdRatio pF pB i + (\<Sum>j = Suc i..<hi. p * fwdRatio pF pB i * (\<Prod>k = Suc i..j. fwdRatio pF pB k))" .
    have "cameraSideLoop pF pB hi i p w
        = cameraSideLoop pF pB hi (i + 1) (p * fwdRatio pF pB i) (w + p * fwdRatio pF pB i)"
      using True by (subst cameraSideLoop.simps) (simp add: fwdRatio_def Let_def)
    also have "\<dots> = (w + p * fwdRatio pF pB i)
        + (\<Sum>j = i + 1..<hi. p * fwdRatio pF pB i * (\<Prod>k = i + 1..j. fwdRatio pF pB k))"
      using "1.IH" [OF True, of "p * fwdRatio pF pB i"] by (simp add: fwdRatio_def)
    finally show ?thesis using eq by simp
  qed
qed

lemma emitterSideLoop_sum:
  "emitterSideLoop pF pB i p w = w + (\<Sum>j = 1..i. p * (\<Prod>k = j..i. bwdRatio pF pB k))"
proof (induction pF pB i p w rule: emitterSideLoop.induct)
  case (1 pF pB i p w)
  show ?case
  proof (cases "1 \<le> i")
    case False
    then show ?thesis by (subst emitterSideLoop.simps) simp
  next
    case True
    then obtain n where n: "i = Suc n" by (cases i) auto
    have split: "(\<Prod>k = j..Suc n. bwdRatio pF pB k) = bwdRatio pF pB (Suc n) * (\<Prod>k = j..n. bwdRatio pF pB k)"
      if "j \<le> Suc n" for j
      using that by (simp add: prod.nat_ivl_Suc')
    have "(\<Sum>j = 1..Suc n. p * (\<Prod>k = j..Suc n. bwdRatio pF pB k))
        = (\<Sum>j = 1..n. p * (\<Prod>k = j..Suc n. bwdRatio pF pB k)) + p * bwdRatio pF pB (Suc n)"
      by simp
    also have "(\<Sum>j = 1..n. p * (\<Prod>k = j..Suc n. bwdRatio pF pB k))
        = (\<Sum>j = 1..n. p * bwdRatio pF pB (Suc n) * (\<Prod>k = j..n. bwdRatio pF pB k))"
      by (rule sum.cong) (simp_all add: split)
    finally have eq: "(\<Sum>j = 1..Suc n. p * (\<Prod>k = j..Suc n. bwdRatio pF pB k))
        = (\<Sum>j = 1..n. p * bwdRatio pF pB (Suc n) * (\<Prod>k = j..n. bwdRatio pF pB k)) + p * bwdRatio pF pB (Suc n)" .
    have "emitterSideLoop pF pB i p w
        = emitterSideLoop pF pB (i - 1) (p * bwdRatio pF pB i) (w + p * bwdRatio pF pB i)"
      using True by (subst emitterSideLoop.simps) (simp add: bwdRatio_def Let_def)
    also have "\<dots> = (w + p * bwdRatio pF pB i)
        + (\<Sum>j = 1..i - 1. p * bwdRatio pF pB i * (\<Prod>k = j..i - 1. bwdRatio pF pB k))"
      using "1.IH" [OF True, of "p * bwdRatio pF pB i"] by (simp add: bwdRatio_def)
    finally show ?thesis using eq n by simp
  qed
qed

lemma misWeightSum_spec: "misWeightSum pF pB s t = misWeight_spec pF pB s t"
  by (simp add: misWeightSum_def misWeight_spec_def cameraSideLoop_sum emitterSideLoop_sum Let_def)

lemma misWeight_spec_ignores_slot_1:
  assumes "1 \<le> s"
  shows "misWeight_spec (pF[1 := x]) (pB[1 := y]) s t = misWeight_spec pF pB s t"
proof -
  have f: "fwdRatio (pF[1 := x]) (pB[1 := y]) i = fwdRatio pF pB i" if "1 \<le> i" for i
    using that by (simp add: fwdRatio_def)
  have b: "bwdRatio (pF[1 := x]) (pB[1 := y]) i = bwdRatio pF pB i" if "1 \<le> i" for i
    using that by (simp add: bwdRatio_def)
  have F: "(\<Prod>i = s..j. fwdRatio (pF[1 := x]) (pB[1 := y]) i) = (\<Prod>i = s..j. fwdRatio pF pB i)" for j
  proof (rule prod.cong)
    fix i assume "i \<in> {s..j}"
    then have "1 \<le> i" using assms by simp
    then show "fwdRatio (pF[1 := x]) (pB[1 := y]) i = fwdRatio pF pB i" by (rule f)
  qed simp
  have B: "(\<Prod>i = j..s - 1. bwdRatio (pF[1 := x]) (pB[1 := y]) i) = (\<Prod>i = j..s - 1. bwdRatio pF pB i)"
    if "1 \<le> j" for j
  proof (rule prod.cong)
    fix i assume "i \<in> {j..s - 1}"
    then have "1 \<le> i" using that by simp
    then show "bwdRatio (pF[1 := x]) (pB[1 := y]) i = bwdRatio pF pB i" by (rule b)
  qed simp
  have "(\<Sum>j = 1..s - 1. \<Prod>i = j..s - 1. bwdRatio (pF[1 := x]) (pB[1 := y]) i)
      = (\<Sum>j = 1..s - 1. \<Prod>i = j..s - 1. bwdRatio pF pB i)"
  proof (rule sum.cong)
    fix j assume "j \<in> {1..s - 1}"
    then have "1 \<le> j" by simp
    then show "(\<Prod>i = j..s - 1. bwdRatio (pF[1 := x]) (pB[1 := y]) i) = (\<Prod>i = j..s - 1. bwdRatio pF pB i)"
      by (rule B)
  qed simp
  then show ?thesis
    unfolding misWeight_spec_def by (simp only: F)
qed


text \<open>
  Claim C2. Every call \<open>misWeight(camera, emitter, s, t)\<close> that gets through the filling
  of its scratch arrays returns \<open>1 / weight\<close>, where \<open>weight\<close> is 1, plus the running
  products of \<open>pdfForward[i + 1] / pdfBackward[i + 1]\<close> for \<open>i = s \<dots> s + t - 1\<close>, plus
  the running products of \<open>pdfBackward[i + 1] / pdfForward[i + 1]\<close> for
  \<open>i = s - 1\<close> down to 1 (this is \<open>misWeight_spec\<close>). The emitter-side accumulation
  stops at \<open>i = 1\<close>: the \<open>i = 0\<close> ratio \<open>pdfBackward[1] / pdfForward[1]\<close> is no term
  of the sum, and for \<open>s \<ge> 1\<close> the result does not depend on slot 1 of either array.
\<close>

theorem misWeight_returns_reciprocal_of_accumulated_weight:
  "misWeight camera emitter s t =
     ebind (misWeightFill camera emitter s t)
       (\<lambda>m. Inr (misWeight_spec (pdfForward_arr m) (pdfBackward_arr m) s t))
   \<and> (1 \<le> s \<longrightarrow> misWeightSum (pF[1 := x]) (pB[1 := y]) s t = misWeightSum pF pB s t)"
proof (intro conjI impI)
  show "misWeight camera emitter s t =
     ebind (misWeightFill camera emitter s t)
       (\<lambda>m. Inr (misWeight_spec (pdfForward_arr m) (pdfBackward_arr m) s t))"
    by (simp add: misWeight_def misWeightSum_spec)
  show "misWeightSum (pF[1 := x]) (pB[1 := y]) s t = misWeightSum pF pB s t" if "1 \<le> s"
    using misWeight_spec_ignores_slot_1 [OF that] by (simp only: misWeightSum_spec)
qed

theorem misWeight_returns_reciprocal_witness:
  "misWeight \<lparr>vertices = [], edges = []\<rparr> \<lparr>vertices = [], edges = []\<rparr> 2 1 =
     ebind (misWeightFill \<lparr>vertices = [], edges = []\<rparr> \<lparr>vertices = [], edges = []\<rparr> 2 1)
       (\<lambda>m. Inr (misWeight_spec (pdfForward_arr m) (pdfBackward_arr m) 2 1))
   \<and> misWeightSum ([1, 2, 3, 4][1 := 9]) ([4, 3, 2, 1][1 := 7]) 2 1 = misWeightSum [1, 2, 3, 4] [4, 3, 2, 1] 2 1
   \<and> misWeightSum [1, 2, 3, 4] [4, 3, 2, 1] 2 1 = 3 / 17"
  using misWeight_returns_reciprocal_of_accumulated_weight
    [of "\<lparr>vertices = [], edges = []\<rparr>" "\<lparr>vertices = [], edges = []\<rparr>" 2 1 "[1, 2, 3, 4]" 9 "[4, 3, 2, 1]" 7]
  by (simp add: misWeightSum_def cameraSideLoop.simps emitterSideLoop.simps)

section \<open>The weights of the decompositions of one path\<close>

lemma splitDensity_pos:
  assumes "\<forall>k\<in>{2..n}. 0 < pF ! k \<and> 0 < pB ! k" "m \<le> n"
  shows "0 < splitDensity pF pB m"
  unfolding splitDensity_def pdfRatio_def
  using assms by (intro prod_pos) auto

lemma splitDensity_split:
  assumes "1 \<le> a" "a \<le> b"
  shows "splitDensity pF pB b = splitDensity pF pB a * (\<Prod>k = a + 1..b. pdfRatio pF pB k)"
proof -
  from assms obtain p where b: "b = a + p" using le_Suc_ex by blast
  have "2 \<le> a + 1" using assms by simp
  then show ?thesis
    unfolding splitDensity_def b by (rule prod.ub_add_nat)
qed

lemma fwd_run:
  assumes "1 \<le> s" "s \<le> j"
  shows "(\<Prod>i = s..j. fwdRatio pF pB i) * splitDensity pF pB s = splitDensity pF pB (j + 1)"
proof -
  have "(\<Prod>k = s + 1..j + 1. pdfRatio pF pB k) = (\<Prod>i = s..j. pdfRatio pF pB (i + 1))"
    by (rule prod.shift_bounds_cl_nat_ivl)
  also have "\<dots> = (\<Prod>i = s..j. fwdRatio pF pB i)"
    by (simp only: fwdRatio_def pdfRatio_def)
  finally have "(\<Prod>i = s..j. fwdRatio pF pB i) = (\<Prod>k = s + 1..j + 1. pdfRatio pF pB k)"
    by simp
  then show ?thesis
    using splitDensity_split [of s "j + 1" pF pB] assms by simp
qed

lemma bwd_run:
  assumes "1 \<le> j" "j \<le> s - 1" and pos: "\<forall>k\<in>{2..n}. 0 < pF ! k \<and> 0 < pB ! k" and "s \<le> n"
  shows "(\<Prod>i = j..s - 1. bwdRatio pF pB i) * splitDensity pF pB s = splitDensity pF pB j"
proof -
  have s: "s - 1 + 1 = s" using assms by simp
  have "(\<Prod>i = j..s - 1. bwdRatio pF pB i) = (\<Prod>k = j + 1..s. bwdRatio pF pB (k - 1))"
    using prod.shift_bounds_cl_nat_ivl [of "\<lambda>k. bwdRatio pF pB (k - 1)" j 1 "s - 1"] s by simp
  moreover have "splitDensity pF pB s = splitDensity pF pB j * (\<Prod>k = j + 1..s. pdfRatio pF pB k)"
    using splitDensity_split [of j s pF pB] assms by simp
  moreover have "(\<Prod>k = j + 1..s. bwdRatio pF pB (k - 1)) * (\<Prod>k = j + 1..s. pdfRatio pF pB k) = 1"
  proof -
    have "(\<Prod>k = j + 1..s. bwdRatio pF pB (k - 1)) * (\<Prod>k = j + 1..s. pdfRatio pF pB k)
        = (\<Prod>k = j + 1..s. bwdRatio pF pB (k - 1) * pdfRatio pF pB k)"
      by (simp add: prod.distrib)
    also have "\<dots> = (\<Prod>k = j + 1..s. 1)"
    proof (rule prod.cong)
      fix k assume k: "k \<in> {j + 1..s}"
      then have "k \<in> {2..n}" using assms by auto
      with pos have "0 < pF ! k" "0 < pB ! k" by auto
      moreover have "k - 1 + 1 = k" using k by auto
      ultimately show "bwdRatio pF pB (k - 1) * pdfRatio pF pB k = 1"
        by (simp add: bwdRatio_def pdfRatio_def)
    qed simp
    finally show ?thesis by simp
  qed
  ultimately show ?thesis by (simp add: mult.assoc mult.left_commute)
qed

lemma misWeight_denominator:
  assumes s: "1 \<le> s" and pos: "\<forall>k\<in>{2..s + t}. 0 < pF ! k \<and> 0 < pB ! k"
  shows "(1 + (\<Sum>j = s..<s + t. \<Prod>i = s..j. fwdRatio pF pB i)
            + (\<Sum>j = 1..s - 1. \<Prod>i = j..s - 1. bwdRatio pF pB i)) * splitDensity pF pB s
         = (\<Sum>m = 1..s + t. splitDensity pF pB m)"
proof -
  let ?Q = "splitDensity pF pB"
  have A: "(\<Sum>j = s..<s + t. \<Prod>i = s..j. fwdRatio pF pB i) * ?Q s = (\<Sum>m = s + 1..s + t. ?Q m)"
  proof -
    have "(\<Sum>j = s..<s + t. \<Prod>i = s..j. fwdRatio pF pB i) * ?Q s
        = (\<Sum>j = s..<s + t. (\<Prod>i = s..j. fwdRatio pF pB i) * ?Q s)"
      by (simp add: sum_distrib_right)
    also have "\<dots> = (\<Sum>j = s..<s + t. ?Q (j + 1))"
      by (rule sum.cong) (simp_all add: fwd_run [OF s])
    also have "\<dots> = (\<Sum>m = s + 1..<s + t + 1. ?Q m)"
      using sum.shift_bounds_nat_ivl [of ?Q s 1 "s + t"] by simp
    also have "{s + 1..<s + t + 1} = {s + 1..s + t}" by auto
    finally show ?thesis .
  qed
  have B: "(\<Sum>j = 1..s - 1. \<Prod>i = j..s - 1. bwdRatio pF pB i) * ?Q s = (\<Sum>m = 1..s - 1. ?Q m)"
  proof -
    have "(\<Sum>j = 1..s - 1. \<Prod>i = j..s - 1. bwdRatio pF pB i) * ?Q s
        = (\<Sum>j = 1..s - 1. (\<Prod>i = j..s - 1. bwdRatio pF pB i) * ?Q s)"
      by (simp add: sum_distrib_right)
    also have "\<dots> = (\<Sum>j = 1..s - 1. ?Q j)"
    proof (rule sum.cong)
      fix j assume "j \<in> {1..s - 1}"
      then show "(\<Prod>i = j..s - 1. bwdRatio pF pB i) * ?Q s = ?Q j"
        using bwd_run [of j s "s + t" pF pB] pos by simp
    qed simp
    finally show ?thesis .
  qed
  have C: "(\<Sum>m = 1..s + t. ?Q m) = (\<Sum>m = 1..s - 1. ?Q m) + ?Q s + (\<Sum>m = s + 1..s + t. ?Q m)"
  proof -
    have "(\<Sum>m = 1..s + t. ?Q m) = (\<Sum>m = 1..s. ?Q m) + (\<Sum>m = s + 1..s + t. ?Q m)"
      by (rule sum.ub_add_nat) simp
    moreover have "(\<Sum>m = 1..s. ?Q m) = (\<Sum>m = 1..s - 1. ?Q m) + ?Q s"
      using s by (cases s) simp_all
    ultimately show ?thesis by simp
  qed
  show ?thesis
    using A B C by (simp add: distrib_right)
qed

text \<open>
  What the two loops compute for \<open>s \<ge> 1\<close> on positive pdfs: the density of the split
  after vertex \<open>s\<close> over the sum of the densities of the splits after the vertices
  \<open>1 \<dots> s + t\<close>. The split after vertex 0 has no term in that sum, while the split
  after vertex \<open>s + t\<close> (the camera side reduced to its first vertex) has one.
\<close>

lemma misWeightSum_closed:
  assumes s: "1 \<le> s" and pos: "\<forall>k\<in>{2..s + t}. 0 < pF ! k \<and> 0 < pB ! k"
  shows "misWeightSum pF pB s t = splitDensity pF pB s / (\<Sum>m = 1..s + t. splitDensity pF pB m)"
proof -
  let ?D = "1 + (\<Sum>j = s..<s + t. \<Prod>i = s..j. fwdRatio pF pB i)
              + (\<Sum>j = 1..s - 1. \<Prod>i = j..s - 1. bwdRatio pF pB i)"
  have Q: "0 < splitDensity pF pB s"
    using splitDensity_pos [OF pos, of s] by simp
  have "?D * splitDensity pF pB s = (\<Sum>m = 1..s + t. splitDensity pF pB m)"
    by (rule misWeight_denominator [OF s pos])
  then have "splitDensity pF pB s / (\<Sum>m = 1..s + t. splitDensity pF pB m)
      = splitDensity pF pB s / (?D * splitDensity pF pB s)" by simp
  also have "\<dots> = 1 / ?D" using Q by simp
  finally have "1 / ?D = splitDensity pF pB s / (\<Sum>m = 1..s + t. splitDensity pF pB m)" by simp
  then show ?thesis
    by (simp add: misWeightSum_spec misWeight_spec_def)
qed

text \<open>Concrete runs of the filling of the scratch arrays.\<close>

lemma vlength_unit [simp]: "vlength (Vec3f 1 0 0) = 1" "vlength (Vec3f (- 1) 0 0) = 1"
  by (simp_all add: vlength_def)

lemmas example_defs =
  exEmitterPath_def exCameraPath_def exEmitterRoot_def exCameraRoot_def exEmitterVertex_def
  exCameraVertex_def exVolumeVertex_def exEdge_def exEmitter_def exCamera_def exMedium_def
  exPoint_def exDirection_def unitX_def vzero_def vone_def

lemmas fill_defs =
  misWeightFill_def fillEmitter.simps fillCamera.simps vertex_at_def edge_at_def ebind_def
  evalPdfs_def store_def mkPathEdge_def reverse_def cosineFactor_def pos_def
  DirectionSample_of_def vol_makeWarpedQuery_def Let_def eval_nat_numeral

lemma exFill_1_1:
  "misWeightFill (exCameraPath 1) (exEmitterPath 1) 1 1 =
     Inr \<lparr>pdfForward_arr = [1, 1, 2, 1], pdfBackward_arr = [1, 1, 1, 1]\<rparr>"
  by (simp add: fill_defs example_defs)

lemma exFill_2_0:
  "misWeightFill (exCameraPath 2) (exEmitterPath 2) 2 0 =
     Inr \<lparr>pdfForward_arr = [1, 1, 2, 1], pdfBackward_arr = [1, 1, 1, 1]\<rparr>"
  by (simp add: fill_defs example_defs)

lemma exFill_0_1:
  "misWeightFill \<lparr>vertices = [exCameraRoot, exCameraVertex], edges = [exEdge]\<rparr>
      \<lparr>vertices = [exEmitterRoot], edges = []\<rparr> 0 1 =
     Inr \<lparr>pdfForward_arr = [1, 1, 1], pdfBackward_arr = [1, 1, 1]\<rparr>"
  by (simp add: fill_defs example_defs)

lemma exFill_1_0:
  "misWeightFill \<lparr>vertices = [exCameraRoot], edges = []\<rparr>
      \<lparr>vertices = [exEmitterRoot, exVolumeVertex\<lparr>pdfForward := 1\<rparr>], edges = [exEdge]\<rparr> 1 0 =
     Inr \<lparr>pdfForward_arr = [1, 1, 1], pdfBackward_arr = [1, 1, 1]\<rparr>"
  by (simp add: fill_defs example_defs)

lemma exWeight_1_1: "misWeight (exCameraPath 1) (exEmitterPath 1) 1 1 = Inr (1 / 3)"
  unfolding misWeight_def exFill_1_1
  by (simp add: ebind_def misWeightSum_def cameraSideLoop.simps emitterSideLoop.simps)

text \<open>
  Claim C1. The balance-heuristic weights that \<^verbatim>\<open>misWeight\<close> returns over all
  admissible decompositions \<open>(s, t)\<close> of one concrete path are to sum to 1. The code
  does not do that. The emitter-side loop stops at \<open>i = 1\<close>, one slot short of the
  emitter endpoint, while the camera-side loop runs up to the camera endpoint; so the
  weights are not normalised over the decompositions that are used.
  \<^item> The call \<open>(0, 1)\<close> on the emitter path that holds the emitter root only and
    the camera path (camera root, camera endpoint at distance 1) fills both scratch
    arrays with \<open>[1, 1, 1]\<close> and returns \<open>1 / 2\<close>. It is the only decomposition of
    that path with \<open>t \<ge> 1\<close>, so its weight should be 1. The call \<open>(1, 0)\<close> on the
    same three slots fills the arrays alike and returns 1: together \<open>3 / 2\<close>.
  \<^item> The call \<open>(1, 1)\<close> that connects an emitter endpoint to a camera endpoint at
    distance 1 fills the arrays with \<open>[1, 1, 2, 1]\<close> and \<open>[1, 1, 1, 1]\<close> and
    returns \<open>1 / 3\<close>; it is the only decomposition of that path with \<open>s \<ge> 1\<close> and
    \<open>t \<ge> 1\<close>.
  \<^item> On a path of five slots whose pdfs are all 1, the weights of \<open>(0, 3)\<close>,
    \<open>(1, 2)\<close>, \<open>(2, 1)\<close>, \<open>(3, 0)\<close> are \<open>1 / 4\<close>, \<open>1 / 3\<close>, \<open>1 / 3\<close>,
    \<open>1 / 3\<close>: the sum is \<open>5 / 4\<close> over all four, \<open>11 / 12\<close> over those with
    \<open>t \<ge> 1\<close> (the decompositions of the specification's driver), and \<open>2 / 3\<close> over
    those with \<open>s \<ge> 1\<close> and \<open>t \<ge> 1\<close>.
\<close>

theorem misWeight_weights_do_not_sum_to_one:
  "misWeightFill \<lparr>vertices = [exCameraRoot, exCameraVertex], edges = [exEdge]\<rparr>
      \<lparr>vertices = [exEmitterRoot], edges = []\<rparr> 0 1 =
     Inr \<lparr>pdfForward_arr = [1, 1, 1], pdfBackward_arr = [1, 1, 1]\<rparr>
   \<and> misWeightFill \<lparr>vertices = [exCameraRoot], edges = []\<rparr>
      \<lparr>vertices = [exEmitterRoot, exVolumeVertex\<lparr>pdfForward := 1\<rparr>], edges = [exEdge]\<rparr> 1 0 =
     Inr \<lparr>pdfForward_arr = [1, 1, 1], pdfBackward_arr = [1, 1, 1]\<rparr>
   \<and> misWeight \<lparr>vertices = [exCameraRoot, exCameraVertex], edges = [exEdge]\<rparr>
      \<lparr>vertices = [exEmitterRoot], edges = []\<rparr> 0 1 = Inr (1 / 2)
   \<and> misWeight \<lparr>vertices = [exCameraRoot], edges = []\<rparr>
      \<lparr>vertices = [exEmitterRoot, exVolumeVertex\<lparr>pdfForward := 1\<rparr>], edges = [exEdge]\<rparr> 1 0 = Inr 1
   \<and> misWeightFill \<lparr>vertices = [exCameraRoot, exCameraVertex], edges = [exEdge]\<rparr>
      \<lparr>vertices = [exEmitterRoot, exEmitterVertex], edges = [exEdge]\<rparr> 1 1 =
     Inr \<lparr>pdfForward_arr = [1, 1, 2, 1], pdfBackward_arr = [1, 1, 1, 1]\<rparr>
   \<and> misWeight \<lparr>vertices = [exCameraRoot, exCameraVertex], edges = [exEdge]\<rparr>
      \<lparr>vertices = [exEmitterRoot, exEmitterVertex], edges = [exEdge]\<rparr> 1 1 = Inr (1 / 3)
   \<and> misWeightSum [1, 1, 1, 1, 1] [1, 1, 1, 1, 1] 0 3 + misWeightSum [1, 1, 1, 1, 1] [1, 1, 1, 1, 1] 1 2
     + misWeightSum [1, 1, 1, 1, 1] [1, 1, 1, 1, 1] 2 1 + misWeightSum [1, 1, 1, 1, 1] [1, 1, 1, 1, 1] 3 0
     = 5 / 4
   \<and> misWeightSum [1, 1, 1, 1, 1] [1, 1, 1, 1, 1] 0 3 + misWeightSum [1, 1, 1, 1, 1] [1, 1, 1, 1, 1] 1 2
     + misWeightSum [1, 1, 1, 1, 1] [1, 1, 1, 1, 1] 2 1 = 11 / 12
   \<and> misWeightSum [1, 1, 1, 1, 1] [1, 1, 1, 1, 1] 1 2 + misWeightSum [1, 1, 1, 1, 1] [1, 1, 1, 1, 1] 2 1
     = 2 / 3"
proof -
  have a: "misWeight \<lparr>vertices = [exCameraRoot, exCameraVertex], edges = [exEdge]\<rparr>
      \<lparr>vertices = [exEmitterRoot], edges = []\<rparr> 0 1 = Inr (1 / 2)"
    unfolding misWeight_def exFill_0_1
    by (simp add: ebind_def misWeightSum_def cameraSideLoop.simps emitterSideLoop.simps)
  have b: "misWeight \<lparr>vertices = [exCameraRoot], edges = []\<rparr>
      \<lparr>vertices = [exEmitterRoot, exVolumeVertex\<lparr>pdfForward := 1\<rparr>], edges = [exEdge]\<rparr> 1 0 = Inr 1"
    unfolding misWeight_def exFill_1_0
    by (simp add: ebind_def misWeightSum_def cameraSideLoop.simps emitterSideLoop.simps)
  have f11: "misWeightFill \<lparr>vertices = [exCameraRoot, exCameraVertex], edges = [exEdge]\<rparr>
      \<lparr>vertices = [exEmitterRoot, exEmitterVertex], edges = [exEdge]\<rparr> 1 1 =
     Inr \<lparr>pdfForward_arr = [1, 1, 2, 1], pdfBackward_arr = [1, 1, 1, 1]\<rparr>"
    using exFill_1_1 by (simp add: exCameraPath_def exEmitterPath_def)
  have w11: "misWeight \<lparr>vertices = [exCameraRoot, exCameraVertex], edges = [exEdge]\<rparr>
      \<lparr>vertices = [exEmitterRoot, exEmitterVertex], edges = [exEdge]\<rparr> 1 1 = Inr (1 / 3)"
    using exWeight_1_1 by (simp add: exCameraPath_def exEmitterPath_def)
  have c: "misWeightSum [1, 1, 1, 1, 1] [1, 1, 1, 1, 1] 0 3 = 1 / 4"
    "misWeightSum [1, 1, 1, 1, 1] [1, 1, 1, 1, 1] 1 2 = 1 / 3"
    "misWeightSum [1, 1, 1, 1, 1] [1, 1, 1, 1, 1] 2 1 = 1 / 3"
    "misWeightSum [1, 1, 1, 1, 1] [1, 1, 1, 1, 1] 3 0 = 1 / 3"
    by (simp_all add: misWeightSum_def cameraSideLoop.simps emitterSideLoop.simps)
  show ?thesis
    unfolding c by (intro conjI exFill_0_1 exFill_1_0 a b f11 w11) simp_all
qed

section \<open>Where misWeight writes\<close>

lemma store_usable:
  assumes "usablePtr ptr n" "scratchSize m n"
  shows "\<exists>m'. store ptr x m = Inr m' \<and> scratchSize m' n \<and> deref ptr m' = Some x"
  using assms by (cases ptr) (simp_all add: usablePtr_def scratchSize_def store_def deref_def)

lemma store_null: "store NullPtr x m = Inl NullWrite"
  by (simp add: store_def)

lemma store_Inr_deref:
  assumes "store ptr x m = Inr m'"
  shows "deref ptr m' = Some x"
  using assms by (cases ptr) (auto simp: store_def deref_def split: if_splits)

lemma evalPdfs_endpoint:
  assumes "isEndpoint v"
  shows "\<exists>x. evalPdfs v prev prevEdge next nextEdge forward backward m =
           ebind (store forward x m) (store backward 1)"
  using assms by (cases "kind v") (auto simp: isEndpoint_def evalPdfs_def)

lemma evalPdfs_usable:
  assumes "usablePtr forward n" "usablePtr backward n" "scratchSize m n"
  shows "evalPdfs v prev prevEdge next nextEdge forward backward m = Inl NullRead
       \<or> (\<exists>m'. evalPdfs v prev prevEdge next nextEdge forward backward m = Inr m' \<and> scratchSize m' n)"
proof -
  have two: "evalSeq = Inl NullRead \<or> (\<exists>m'. evalSeq = Inr m' \<and> scratchSize m' n)"
    if "evalSeq = ebind (store forward x m) (\<lambda>m1. case pv of None \<Rightarrow> Inl NullRead | Some p \<Rightarrow> store backward (y p) m1)"
    for evalSeq x pv and y :: "PathVertex \<Rightarrow> real"
  proof -
    from store_usable [OF assms(1,3)] obtain m1 where m1: "store forward x m = Inr m1" "scratchSize m1 n"
      by blast
    show ?thesis
    proof (cases pv)
      case None
      then show ?thesis using that m1 by (simp add: ebind_def)
    next
      case (Some p)
      from store_usable [OF assms(2) m1(2)] obtain m2 where "store backward (y p) m1 = Inr m2" "scratchSize m2 n"
        by blast
      then show ?thesis using that m1 Some by (simp add: ebind_def)
    qed
  qed
  show ?thesis
  proof (cases "kind v")
    case (EmitterRoot em r)
    then show ?thesis using store_usable [OF assms(1,3)] by (auto simp: evalPdfs_def)
  next
    case (CameraRoot cam r)
    then show ?thesis using store_usable [OF assms(1,3)] by (auto simp: evalPdfs_def)
  next
    case (EmitterVertex em r)
    then have "evalPdfs v prev prevEdge next nextEdge forward backward m =
        ebind (store forward (cosineFactor next (edge_d nextEdge) / edge_rSq nextEdge *
                  directionalPdf em (e_point r) (DirectionSample_of (edge_d nextEdge))) m)
          (\<lambda>m1. case Some v of None \<Rightarrow> Inl NullRead | Some p \<Rightarrow> store backward ((\<lambda>p. 1) p) m1)"
      by (simp add: evalPdfs_def)
    then show ?thesis by (rule two)
  next
    case (CameraVertex cam r)
    then have "evalPdfs v prev prevEdge next nextEdge forward backward m =
        ebind (store forward (cosineFactor next (edge_d nextEdge) / edge_rSq nextEdge *
                  directionPdf cam (c_point r) (DirectionSample_of (edge_d nextEdge))) m)
          (\<lambda>m1. case Some v of None \<Rightarrow> Inl NullRead | Some p \<Rightarrow> store backward ((\<lambda>p. 1) p) m1)"
      by (simp add: evalPdfs_def)
    then show ?thesis by (rule two)
  next
    case (SurfaceVertex bsdf r)
    show ?thesis
    proof (cases prevEdge)
      case None
      then show ?thesis using SurfaceVertex by (simp add: evalPdfs_def)
    next
      case (Some pe)
      show ?thesis
        by (rule two [where pv = prev]) (simp add: evalPdfs_def SurfaceVertex Some Let_def)
    qed
  next
    case (VolumeVertex med r)
    show ?thesis
    proof (cases prevEdge)
      case None
      then show ?thesis using VolumeVertex by (simp add: evalPdfs_def)
    next
      case (Some pe)
      show ?thesis
        by (rule two [where pv = prev]) (simp add: evalPdfs_def VolumeVertex Some Let_def)
    qed
  qed
qed

lemma store_twice_returns:
  assumes "usablePtr forward n" "usablePtr backward n" "scratchSize m n"
  shows "\<exists>m'. ebind (store forward x m) (store backward y) = Inr m' \<and> scratchSize m' n"
proof -
  from store_usable [OF assms(1,3)] obtain m1 where m1: "store forward x m = Inr m1" "scratchSize m1 n"
    by blast
  from store_usable [OF assms(2) m1(2)] obtain m2 where "store backward y m1 = Inr m2" "scratchSize m2 n"
    by blast
  then show ?thesis using m1 by (simp add: ebind_def)
qed

lemma evalPdfs_returns:
  assumes "usablePtr forward n" "scratchSize m n"
    and "usablePtr backward n \<or> \<not> isEndpoint v \<and> \<not> readsPrev v"
    and "prev \<noteq> None \<and> prevEdge \<noteq> None \<or> \<not> readsPrev v"
  shows "\<exists>m'. evalPdfs v prev prevEdge next nextEdge forward backward m = Inr m' \<and> scratchSize m' n"
proof (cases "kind v")
  case (EmitterRoot em r)
  then show ?thesis using store_usable [OF assms(1,2)] by (auto simp: evalPdfs_def)
next
  case (CameraRoot cam r)
  then show ?thesis using store_usable [OF assms(1,2)] by (auto simp: evalPdfs_def)
next
  case (EmitterVertex em r)
  then have b: "usablePtr backward n" using assms(3) by (simp add: isEndpoint_def)
  have "isEndpoint v" using EmitterVertex by (simp add: isEndpoint_def)
  from evalPdfs_endpoint [OF this, of prev prevEdge "next" nextEdge forward backward m]
  obtain x where x: "evalPdfs v prev prevEdge next nextEdge forward backward m =
           ebind (store forward x m) (store backward 1)" ..
  from store_usable [OF assms(1,2)] obtain m1 where m1: "store forward x m = Inr m1" "scratchSize m1 n"
    by blast
  from store_usable [OF b m1(2)] obtain m2 where "store backward 1 m1 = Inr m2" "scratchSize m2 n"
    by blast
  then show ?thesis using x m1 by (simp add: ebind_def)
next
  case (CameraVertex cam r)
  then have b: "usablePtr backward n" using assms(3) by (simp add: isEndpoint_def)
  have "isEndpoint v" using CameraVertex by (simp add: isEndpoint_def)
  from evalPdfs_endpoint [OF this, of prev prevEdge "next" nextEdge forward backward m]
  obtain x where x: "evalPdfs v prev prevEdge next nextEdge forward backward m =
           ebind (store forward x m) (store backward 1)" ..
  from store_usable [OF assms(1,2)] obtain m1 where m1: "store forward x m = Inr m1" "scratchSize m1 n"
    by blast
  from store_usable [OF b m1(2)] obtain m2 where "store backward 1 m1 = Inr m2" "scratchSize m2 n"
    by blast
  then show ?thesis using x m1 by (simp add: ebind_def)
next
  case (SurfaceVertex bsdf r)
  then have r: "readsPrev v" by (simp add: readsPrev_def)
  with assms obtain pv pe where p: "prev = Some pv" "prevEdge = Some pe" and b: "usablePtr backward n"
    by auto
  have "\<exists>x y. evalPdfs v prev prevEdge next nextEdge forward backward m =
      ebind (store forward x m) (store backward y)"
    using SurfaceVertex p by (simp add: evalPdfs_def Let_def) blast
  then show ?thesis
    using store_twice_returns [OF assms(1) b assms(2)] by auto
next
  case (VolumeVertex med r)
  then have r: "readsPrev v" by (simp add: readsPrev_def)
  with assms obtain pv pe where p: "prev = Some pv" "prevEdge = Some pe" and b: "usablePtr backward n"
    by auto
  have "\<exists>x y. evalPdfs v prev prevEdge next nextEdge forward backward m =
      ebind (store forward x m) (store backward y)"
    using VolumeVertex p by (simp add: evalPdfs_def Let_def) blast
  then show ?thesis
    using store_twice_returns [OF assms(1) b assms(2)] by auto
qed

lemma store_size:
  assumes "store ptr x m = Inr m'" "scratchSize m n"
  shows "scratchSize m' n"
  using assms by (cases ptr) (auto simp: store_def scratchSize_def split: if_splits)

lemma fillEmitter_shape:
  assumes "scratchSize m n" "s < n"
  shows "fillEmitter emitter s i m = Inl OutOfRangeRead
       \<or> (\<exists>m'. fillEmitter emitter s i m = Inr m' \<and> scratchSize m' n)"
  using assms
proof (induction emitter s i m rule: fillEmitter.induct)
  case (1 emitter s i m)
  show ?case
  proof (cases "i \<le> s")
    case False
    then show ?thesis using "1.prems" by (subst fillEmitter.simps) simp
  next
    case True
    then have i: "i < n" using "1.prems" by simp
    show ?thesis
    proof (cases "vertex_at emitter i")
      case (Inl e)
      then have "e = OutOfRangeRead" by (auto simp: vertex_at_def split: if_splits)
      then show ?thesis using True Inl by (subst fillEmitter.simps) simp
    next
      case (Inr v)
      from store_usable [of "ForwardSlot i" n m "pdfForward v"] i "1.prems"(1)
      obtain m1 where m1: "store (ForwardSlot i) (pdfForward v) m = Inr m1" "scratchSize m1 n"
        by (auto simp: usablePtr_def)
      from store_usable [of "BackwardSlot i" n m1 "pdfBackward v"] i m1(2)
      obtain m2 where m2: "store (BackwardSlot i) (pdfBackward v) m1 = Inr m2" "scratchSize m2 n"
        by (auto simp: usablePtr_def)
      have "fillEmitter emitter s i m = fillEmitter emitter s (i + 1) m2"
        using True Inr m1(1) m2(1) by (subst fillEmitter.simps) simp
      with "1.IH" [OF True Inr m1(1) m2(1) m2(2) "1.prems"(2)] show ?thesis by simp
    qed
  qed
qed

lemma fillCamera_shape:
  assumes "scratchSize m n" "0 < n" "numVerts \<le> n"
  shows "fillCamera camera numVerts t i m = Inl OutOfRangeRead
       \<or> (\<exists>m'. fillCamera camera numVerts t i m = Inr m' \<and> scratchSize m' n)"
  using assms
proof (induction camera numVerts t i m rule: fillCamera.induct)
  case (1 camera numVerts t i m)
  show ?case
  proof (cases "i \<le> t")
    case False
    then show ?thesis using "1.prems" by (subst fillCamera.simps) simp
  next
    case True
    have i: "numVerts - 1 - i < n" using "1.prems" by simp
    show ?thesis
    proof (cases "vertex_at camera i")
      case (Inl e)
      then have "e = OutOfRangeRead" by (auto simp: vertex_at_def split: if_splits)
      then show ?thesis using True Inl by (subst fillCamera.simps) simp
    next
      case (Inr v)
      from store_usable [of "ForwardSlot (numVerts - 1 - i)" n m "pdfBackward v"] i "1.prems"(1)
      obtain m1 where m1: "store (ForwardSlot (numVerts - 1 - i)) (pdfBackward v) m = Inr m1"
        "scratchSize m1 n"
        by (auto simp: usablePtr_def)
      from store_usable [of "BackwardSlot (numVerts - 1 - i)" n m1 "pdfForward v"] i m1(2)
      obtain m2 where m2: "store (BackwardSlot (numVerts - 1 - i)) (pdfForward v) m1 = Inr m2"
        "scratchSize m2 n"
        by (auto simp: usablePtr_def)
      have "fillCamera camera numVerts t i m = fillCamera camera numVerts t (i + 1) m2"
        using True Inr m1(1) m2(1) by (subst fillCamera.simps) simp
      with "1.IH" [OF True Inr m1(1) m2(1) m2(2) "1.prems"(2,3)] show ?thesis by simp
    qed
  qed
qed

lemma fillEmitter_fills:
  assumes "scratchSize m n" "s < n" "s < length (vertices emitter)"
  shows "\<exists>m'. fillEmitter emitter s i m = Inr m' \<and> scratchSize m' n
      \<and> (\<forall>k<n. pdfForward_arr m' ! k =
                 (if i \<le> k \<and> k \<le> s then pdfForward (vertices emitter ! k) else pdfForward_arr m ! k)
               \<and> pdfBackward_arr m' ! k =
                 (if i \<le> k \<and> k \<le> s then pdfBackward (vertices emitter ! k) else pdfBackward_arr m ! k))"
  using assms
proof (induction emitter s i m rule: fillEmitter.induct)
  case (1 emitter s i m)
  show ?case
  proof (cases "i \<le> s")
    case False
    then show ?thesis using "1.prems" by (subst fillEmitter.simps) simp
  next
    case True
    then have i: "i < n" using "1.prems" by simp
    let ?v = "vertices emitter ! i"
    have v: "vertex_at emitter i = Inr ?v"
      using True "1.prems" by (simp add: vertex_at_def)
    from store_usable [of "ForwardSlot i" n m "pdfForward ?v"] i "1.prems"(1)
    obtain m1 where m1: "store (ForwardSlot i) (pdfForward ?v) m = Inr m1" "scratchSize m1 n"
      by (auto simp: usablePtr_def)
    from store_usable [of "BackwardSlot i" n m1 "pdfBackward ?v"] i m1(2)
    obtain m2 where m2: "store (BackwardSlot i) (pdfBackward ?v) m1 = Inr m2" "scratchSize m2 n"
      by (auto simp: usablePtr_def)
    have arr: "pdfForward_arr m2 = (pdfForward_arr m)[i := pdfForward ?v]"
      "pdfBackward_arr m2 = (pdfBackward_arr m)[i := pdfBackward ?v]"
      using m1(1) m2(1) by (auto simp: store_def split: if_splits)
    have len: "length (pdfForward_arr m) = n" "length (pdfBackward_arr m) = n"
      using "1.prems"(1) by (simp_all add: scratchSize_def)
    from "1.IH" [OF True v m1(1) m2(1) m2(2) "1.prems"(2,3)]
    obtain m' where m': "fillEmitter emitter s (i + 1) m2 = Inr m'" "scratchSize m' n"
      and step: "\<forall>k<n. pdfForward_arr m' ! k =
                 (if i + 1 \<le> k \<and> k \<le> s then pdfForward (vertices emitter ! k) else pdfForward_arr m2 ! k)
               \<and> pdfBackward_arr m' ! k =
                 (if i + 1 \<le> k \<and> k \<le> s then pdfBackward (vertices emitter ! k) else pdfBackward_arr m2 ! k)"
      by blast
    have run: "fillEmitter emitter s i m = Inr m'"
      using True v m1(1) m2(1) m' by (subst fillEmitter.simps) simp
    have "pdfForward_arr m' ! k =
                 (if i \<le> k \<and> k \<le> s then pdfForward (vertices emitter ! k) else pdfForward_arr m ! k)
               \<and> pdfBackward_arr m' ! k =
                 (if i \<le> k \<and> k \<le> s then pdfBackward (vertices emitter ! k) else pdfBackward_arr m ! k)"
      if "k < n" for k
      using step [rule_format, OF that] True that
      by (cases "k = i") (simp_all add: arr len)
    then show ?thesis using run m'(2) by blast
  qed
qed

lemma fillCamera_fills:
  assumes "scratchSize m n" "t < n" "t < length (vertices camera)"
  shows "\<exists>m'. fillCamera camera n t i m = Inr m' \<and> scratchSize m' n
      \<and> (\<forall>k<n. pdfForward_arr m' ! k =
                 (if i \<le> n - 1 - k \<and> n - 1 - k \<le> t
                  then pdfBackward (vertices camera ! (n - 1 - k)) else pdfForward_arr m ! k)
               \<and> pdfBackward_arr m' ! k =
                 (if i \<le> n - 1 - k \<and> n - 1 - k \<le> t
                  then pdfForward (vertices camera ! (n - 1 - k)) else pdfBackward_arr m ! k))"
  using assms
proof (induction camera n t i m rule: fillCamera.induct)
  case (1 camera n t i m)
  show ?case
  proof (cases "i \<le> t")
    case False
    then show ?thesis using "1.prems" by (subst fillCamera.simps) simp
  next
    case True
    then have i: "n - 1 - i < n" using "1.prems" by simp
    let ?v = "vertices camera ! i"
    have v: "vertex_at camera i = Inr ?v"
      using True "1.prems" by (simp add: vertex_at_def)
    from store_usable [of "ForwardSlot (n - 1 - i)" n m "pdfBackward ?v"] i "1.prems"(1)
    obtain m1 where m1: "store (ForwardSlot (n - 1 - i)) (pdfBackward ?v) m = Inr m1" "scratchSize m1 n"
      by (auto simp: usablePtr_def)
    from store_usable [of "BackwardSlot (n - 1 - i)" n m1 "pdfForward ?v"] i m1(2)
    obtain m2 where m2: "store (BackwardSlot (n - 1 - i)) (pdfForward ?v) m1 = Inr m2" "scratchSize m2 n"
      by (auto simp: usablePtr_def)
    have arr: "pdfForward_arr m2 = (pdfForward_arr m)[n - 1 - i := pdfBackward ?v]"
      "pdfBackward_arr m2 = (pdfBackward_arr m)[n - 1 - i := pdfForward ?v]"
      using m1(1) m2(1) by (auto simp: store_def split: if_splits)
    have len: "length (pdfForward_arr m) = n" "length (pdfBackward_arr m) = n"
      using "1.prems"(1) by (simp_all add: scratchSize_def)
    from "1.IH" [OF True v m1(1) m2(1) m2(2) "1.prems"(2,3)]
    obtain m' where m': "fillCamera camera n t (i + 1) m2 = Inr m'" "scratchSize m' n"
      and step: "\<forall>k<n. pdfForward_arr m' ! k =
                 (if i + 1 \<le> n - 1 - k \<and> n - 1 - k \<le> t
                  then pdfBackward (vertices camera ! (n - 1 - k)) else pdfForward_arr m2 ! k)
               \<and> pdfBackward_arr m' ! k =
                 (if i + 1 \<le> n - 1 - k \<and> n - 1 - k \<le> t
                  then pdfForward (vertices camera ! (n - 1 - k)) else pdfBackward_arr m2 ! k)"
      by blast
    have run: "fillCamera camera n t i m = Inr m'"
      using True v m1(1) m2(1) m' by (subst fillCamera.simps) simp
    have "pdfForward_arr m' ! k =
                 (if i \<le> n - 1 - k \<and> n - 1 - k \<le> t
                  then pdfBackward (vertices camera ! (n - 1 - k)) else pdfForward_arr m ! k)
               \<and> pdfBackward_arr m' ! k =
                 (if i \<le> n - 1 - k \<and> n - 1 - k \<le> t
                  then pdfForward (vertices camera ! (n - 1 - k)) else pdfBackward_arr m ! k)"
      if "k < n" for k
    proof (cases "n - 1 - k = i")
      case eq: True
      then have "k = n - 1 - i" using that by simp
      then show ?thesis
        using step [rule_format, OF that] True that eq by (simp add: arr len)
    next
      case ne: False
      then have "k \<noteq> n - 1 - i" using that True "1.prems"(2) by auto
      then show ?thesis
        using step [rule_format, OF that] ne by (auto simp: arr len)
    qed
    then show ?thesis using run m'(2) by blast
  qed
qed

lemma fillEmitter_returns:
  assumes "scratchSize m n" "s < n" "s < length (vertices emitter)"
  shows "\<exists>m'. fillEmitter emitter s i m = Inr m' \<and> scratchSize m' n"
  using fillEmitter_fills [OF assms, of i] by blast

lemma fillCamera_returns:
  assumes "scratchSize m n" "t < n" "t < length (vertices camera)"
  shows "\<exists>m'. fillCamera camera n t i m = Inr m' \<and> scratchSize m' n"
  using fillCamera_fills [OF assms, of i] by blast

text \<open>
  The two copy loops overwrite every slot of both scratch arrays: what the arrays hold
  afterwards does not depend on what they held before.
\<close>

lemma fill_overwrites:
  assumes "s < length (vertices emitter)" "t < length (vertices camera)"
    and "scratchSize m0 (s + 1 + (t + 1))"
  shows "\<exists>m2. ebind (fillEmitter emitter s 0 m0) (fillCamera camera (s + 1 + (t + 1)) t 0) = Inr m2
      \<and> scratchSize m2 (s + 1 + (t + 1))
      \<and> (\<forall>k<s + 1 + (t + 1).
            pdfForward_arr m2 ! k =
              (if k \<le> s then pdfForward (vertices emitter ! k)
               else pdfBackward (vertices camera ! (s + 1 + (t + 1) - 1 - k)))
          \<and> pdfBackward_arr m2 ! k =
              (if k \<le> s then pdfBackward (vertices emitter ! k)
               else pdfForward (vertices camera ! (s + 1 + (t + 1) - 1 - k))))"
proof -
  let ?n = "s + 1 + (t + 1)"
  have sn: "s < ?n" and tn: "t < ?n" by simp_all
  from fillEmitter_fills [OF assms(3) sn assms(1), of 0]
  obtain m1 where m1: "fillEmitter emitter s 0 m0 = Inr m1" "scratchSize m1 ?n"
    and e: "\<forall>k<?n. pdfForward_arr m1 ! k =
                 (if 0 \<le> k \<and> k \<le> s then pdfForward (vertices emitter ! k) else pdfForward_arr m0 ! k)
               \<and> pdfBackward_arr m1 ! k =
                 (if 0 \<le> k \<and> k \<le> s then pdfBackward (vertices emitter ! k) else pdfBackward_arr m0 ! k)"
    by blast
  from fillCamera_fills [OF m1(2) tn assms(2), of 0]
  obtain m2 where m2: "fillCamera camera ?n t 0 m1 = Inr m2" "scratchSize m2 ?n"
    and c: "\<forall>k<?n. pdfForward_arr m2 ! k =
                 (if 0 \<le> ?n - 1 - k \<and> ?n - 1 - k \<le> t
                  then pdfBackward (vertices camera ! (?n - 1 - k)) else pdfForward_arr m1 ! k)
               \<and> pdfBackward_arr m2 ! k =
                 (if 0 \<le> ?n - 1 - k \<and> ?n - 1 - k \<le> t
                  then pdfForward (vertices camera ! (?n - 1 - k)) else pdfBackward_arr m1 ! k)"
    by blast
  have "pdfForward_arr m2 ! k =
              (if k \<le> s then pdfForward (vertices emitter ! k)
               else pdfBackward (vertices camera ! (?n - 1 - k)))
          \<and> pdfBackward_arr m2 ! k =
              (if k \<le> s then pdfBackward (vertices emitter ! k)
               else pdfForward (vertices camera ! (?n - 1 - k)))"
    if "k < ?n" for k
  proof (cases "k \<le> s")
    case True
    then have "\<not> (?n - 1 - k \<le> t)" by simp
    then show ?thesis
      using c [rule_format, OF that] e [rule_format, OF that] True by simp
  next
    case False
    then have "?n - 1 - k \<le> t" using that by simp
    then show ?thesis
      using c [rule_format, OF that] False by simp
  qed
  then show ?thesis
    using m1 m2 by (simp add: ebind_def)
qed

lemma ebind_ok:
  assumes "m = Inl OutOfRangeRead \<or> m = Inl NullRead \<or> (\<exists>x. m = Inr x \<and> Q x)"
    and "\<And>x. Q x \<Longrightarrow> noWriteFault (f x)"
  shows "noWriteFault (ebind m f)"
  using assms by (auto simp: ebind_def noWriteFault_def)

lemma ebind_Inr_Some: "ebind (ebind m (\<lambda>v. Inr (g v))) f = ebind m (\<lambda>v. f (g v))"
  by (cases m) (simp_all add: ebind_def)

lemma vertex_at_cases:
  "vertex_at path i = Inl OutOfRangeRead \<or> vertex_at path i = Inl NullRead
   \<or> (\<exists>x. vertex_at path i = Inr x \<and> True)"
  by (simp add: vertex_at_def)

lemma edge_at_cases:
  "edge_at path i = Inl OutOfRangeRead \<or> edge_at path i = Inl NullRead
   \<or> (\<exists>x. edge_at path i = Inr x \<and> True)"
  by (simp add: edge_at_def)

lemma scratchSize_init:
  "scratchSize \<lparr>pdfForward_arr = replicate n 0, pdfBackward_arr = replicate n 0\<rparr> n"
  by (simp add: scratchSize_def)

lemma misWeightFill_inner:
  assumes "1 \<le> s" "1 \<le> t"
  shows "misWeightFill camera emitter s t =
     ebind (fillEmitter emitter s 0
              \<lparr>pdfForward_arr = replicate (s + 1 + (t + 1)) 0,
               pdfBackward_arr = replicate (s + 1 + (t + 1)) 0\<rparr>) (\<lambda>m1.
     ebind (fillCamera camera (s + 1 + (t + 1)) t 0 m1) (\<lambda>m2.
     ebind (vertex_at emitter s) (\<lambda>es.
     ebind (vertex_at camera t) (\<lambda>ct.
     ebind (vertex_at emitter (s - 1)) (\<lambda>ePrev.
     ebind (edge_at emitter (s - 1)) (\<lambda>ePrevEdge.
     ebind (evalPdfs es (Some ePrev) (Some ePrevEdge) ct (mkPathEdge es ct)
              (ForwardSlot (s + 1)) (BackwardSlot (s - 1)) m2) (\<lambda>m3.
     ebind (vertex_at camera (t - 1)) (\<lambda>cPrev.
     ebind (edge_at camera (t - 1)) (\<lambda>cPrevEdge.
     evalPdfs ct (Some cPrev) (Some cPrevEdge) es (reverse (mkPathEdge es ct))
       (BackwardSlot s) (ForwardSlot (s + 2)) m3)))))))))"
proof -
  have "s \<noteq> 0" "t \<noteq> 0" using assms by simp_all
  then show ?thesis
    by (simp only: misWeightFill_def Let_def if_False ebind_Inr_Some)
qed

lemma misWeightFill_no_write_fault:
  assumes "1 \<le> s" "1 \<le> t"
  shows "noWriteFault (misWeightFill camera emitter s t)"
proof -
  let ?n = "s + 1 + (t + 1)"
  have E: "fillEmitter emitter s 0 \<lparr>pdfForward_arr = replicate ?n 0, pdfBackward_arr = replicate ?n 0\<rparr>
        = Inl OutOfRangeRead
      \<or> fillEmitter emitter s 0 \<lparr>pdfForward_arr = replicate ?n 0, pdfBackward_arr = replicate ?n 0\<rparr>
        = Inl NullRead
      \<or> (\<exists>x. fillEmitter emitter s 0 \<lparr>pdfForward_arr = replicate ?n 0, pdfBackward_arr = replicate ?n 0\<rparr>
        = Inr x \<and> scratchSize x ?n)"
    using fillEmitter_shape [OF scratchSize_init [of ?n], where s = s and emitter = emitter and i = 0]
    by auto
  have C: "fillCamera camera ?n t 0 m1 = Inl OutOfRangeRead \<or> fillCamera camera ?n t 0 m1 = Inl NullRead
      \<or> (\<exists>x. fillCamera camera ?n t 0 m1 = Inr x \<and> scratchSize x ?n)"
    if "scratchSize m1 ?n" for m1
    using fillCamera_shape [OF that, where numVerts = ?n and camera = camera and t = t and i = 0]
    by auto
  have P1: "evalPdfs es (Some ePrev) (Some ePrevEdge) ct (mkPathEdge es ct)
              (ForwardSlot (s + 1)) (BackwardSlot (s - 1)) m2 = Inl OutOfRangeRead
      \<or> evalPdfs es (Some ePrev) (Some ePrevEdge) ct (mkPathEdge es ct)
              (ForwardSlot (s + 1)) (BackwardSlot (s - 1)) m2 = Inl NullRead
      \<or> (\<exists>x. evalPdfs es (Some ePrev) (Some ePrevEdge) ct (mkPathEdge es ct)
              (ForwardSlot (s + 1)) (BackwardSlot (s - 1)) m2 = Inr x \<and> scratchSize x ?n)"
    if "scratchSize m2 ?n" for m2 es ePrev ePrevEdge ct
    using evalPdfs_usable [of "ForwardSlot (s + 1)" ?n "BackwardSlot (s - 1)" m2
        es "Some ePrev" "Some ePrevEdge" ct "mkPathEdge es ct"] that
    by (auto simp: usablePtr_def)
  have P2: "noWriteFault (evalPdfs ct (Some cPrev) (Some cPrevEdge) es (reverse (mkPathEdge es ct))
       (BackwardSlot s) (ForwardSlot (s + 2)) m3)"
    if "scratchSize m3 ?n" for m3 es cPrev cPrevEdge ct
    using evalPdfs_usable [of "BackwardSlot s" ?n "ForwardSlot (s + 2)" m3
        ct "Some cPrev" "Some cPrevEdge" es "reverse (mkPathEdge es ct)"] that assms
    by (auto simp: usablePtr_def noWriteFault_def)
  show ?thesis
    unfolding misWeightFill_inner [OF assms]
    apply (rule ebind_ok [where Q = "\<lambda>m. scratchSize m (s + 1 + (t + 1))"])
     apply (rule E)
    apply (rule ebind_ok [where Q = "\<lambda>m. scratchSize m (s + 1 + (t + 1))"])
     apply (erule C)
    apply (rule ebind_ok [where Q = "\<lambda>x. True"])
     apply (rule vertex_at_cases)
    apply (rule ebind_ok [where Q = "\<lambda>x. True"])
     apply (rule vertex_at_cases)
    apply (rule ebind_ok [where Q = "\<lambda>x. True"])
     apply (rule vertex_at_cases)
    apply (rule ebind_ok [where Q = "\<lambda>x. True"])
     apply (rule edge_at_cases)
    apply (rule ebind_ok [where Q = "\<lambda>m. scratchSize m (s + 1 + (t + 1))"])
     apply (erule P1)
    apply (rule ebind_ok [where Q = "\<lambda>x. True"])
     apply (rule vertex_at_cases)
    apply (rule ebind_ok [where Q = "\<lambda>x. True"])
     apply (rule edge_at_cases)
    apply (erule P2)
    done
qed

lemma ebind_InrE:
  assumes "ebind m f = Inr r"
  obtains x where "m = Inr x" "f x = Inr r"
  using assms by (cases m) (simp_all add: ebind_def)

lemma evalPdfs_size:
  assumes "evalPdfs v prev prevEdge nxt nextEdge forward backward m = Inr m'" "scratchSize m n"
  shows "scratchSize m' n"
proof -
  have two: "scratchSize m' n" if "ebind (store forward x m) (store backward y) = Inr m'" for x y
    using that assms(2) by (elim ebind_InrE) (blast intro: store_size)
  have three: "scratchSize m' n"
    if "ebind (store forward x m)
          (\<lambda>m1. case prev of None \<Rightarrow> Inl NullRead | Some pv \<Rightarrow> store backward (y pv) m1) = Inr m'"
    for x and y :: "PathVertex \<Rightarrow> real"
  proof (cases prev)
    case None
    then show ?thesis using that by (elim ebind_InrE) simp
  next
    case (Some pv)
    then show ?thesis using that by (intro two [of x "y pv"]) simp
  qed
  show ?thesis
  proof (cases "kind v")
    case (EmitterRoot em r)
    then show ?thesis using assms by (auto simp: evalPdfs_def intro: store_size)
  next
    case (CameraRoot cam r)
    then show ?thesis using assms by (auto simp: evalPdfs_def intro: store_size)
  next
    case (EmitterVertex em r)
    then show ?thesis using assms(1) by (auto simp: evalPdfs_def intro: two)
  next
    case (CameraVertex cam r)
    then show ?thesis using assms(1) by (auto simp: evalPdfs_def intro: two)
  next
    case (SurfaceVertex bsdf r)
    show ?thesis
    proof (cases prevEdge)
      case None
      then show ?thesis using assms(1) SurfaceVertex by (simp add: evalPdfs_def)
    next
      case (Some pe)
      show ?thesis
        by (rule three [where y = "\<lambda>pv. bsdf_pdf bsdf (makeWarpedQuery (s_event r)
                (ev_toLocal (s_event r) (edge_d nextEdge))
                (ev_toLocal (s_event r) (vneg (edge_d pe)))) * cosineFactor pv (edge_d pe) / edge_rSq pe"])
          (use assms(1) SurfaceVertex Some in \<open>simp add: evalPdfs_def Let_def\<close>)
    qed
  next
    case (VolumeVertex med r)
    show ?thesis
    proof (cases prevEdge)
      case None
      then show ?thesis using assms(1) VolumeVertex by (simp add: evalPdfs_def)
    next
      case (Some pe)
      show ?thesis
        by (rule three [where y = "\<lambda>pv. phasePdf med (vol_makeWarpedQuery r
                (edge_d nextEdge) (vneg (edge_d pe))) * cosineFactor pv (edge_d pe) / edge_rSq pe"])
          (use assms(1) VolumeVertex Some in \<open>simp add: evalPdfs_def Let_def\<close>)
    qed
  qed
qed

text \<open>
  When the filling returns, both scratch arrays have \<open>numVerts = (s + 1) + (t + 1)\<close>
  slots; the accumulation loops read slots with an index of at most \<open>s + t\<close>.
\<close>

lemma misWeightFill_size:
  assumes "misWeightFill camera emitter s t = Inr m"
  shows "scratchSize m (s + 1 + (t + 1))"
proof -
  let ?n = "s + 1 + (t + 1)"
  have A: "scratchSize m1 ?n"
    if "fillEmitter emitter s 0 \<lparr>pdfForward_arr = replicate ?n 0, pdfBackward_arr = replicate ?n 0\<rparr> = Inr m1"
    for m1
    using fillEmitter_shape [OF scratchSize_init [of ?n], where s = s and emitter = emitter and i = 0] that
    by auto
  have B: "scratchSize m2 ?n" if "fillCamera camera ?n t 0 m1 = Inr m2" "scratchSize m1 ?n" for m1 m2
    using fillCamera_shape [OF that(2), where numVerts = ?n and camera = camera and t = t and i = 0] that(1)
    by auto
  show ?thesis
    using assms unfolding misWeightFill_def Let_def
    by (elim ebind_InrE) (blast intro: A B evalPdfs_size)
qed

lemma evalPdfs_endpoint_null:
  assumes "isEndpoint v" "usablePtr forward n" "scratchSize m n"
  shows "evalPdfs v prev prevEdge next nextEdge forward NullPtr m = Inl NullWrite"
proof -
  from evalPdfs_endpoint [OF assms(1), of prev prevEdge "next" nextEdge forward NullPtr m]
  obtain x where x: "evalPdfs v prev prevEdge next nextEdge forward NullPtr m =
      ebind (store forward x m) (store NullPtr 1)" ..
  from store_usable [OF assms(2,3)] obtain m1 where "store forward x m = Inr m1" by blast
  then show ?thesis using x by (simp add: ebind_def store_null)
qed

lemma evalPdfs_endpoint_backward:
  assumes "isEndpoint v" "evalPdfs v prev prevEdge next nextEdge forward backward m = Inr m'"
  shows "deref backward m' = Some 1"
proof -
  from evalPdfs_endpoint [OF assms(1), of prev prevEdge "next" nextEdge forward backward m]
  obtain x where x: "evalPdfs v prev prevEdge next nextEdge forward backward m =
      ebind (store forward x m) (store backward 1)" ..
  with assms(2) obtain m1 where "store backward 1 m1 = Inr m'"
    by (cases "store forward x m") (simp_all add: ebind_def)
  then show ?thesis by (rule store_Inr_deref)
qed

lemma misWeightFill_emitter_endpoint_at_0:
  assumes "t < length (vertices camera)" "vertices emitter \<noteq> []" "isEndpoint (vertices emitter ! 0)"
  shows "misWeightFill camera emitter 0 t = Inl NullWrite"
proof -
  let ?n = "0 + 1 + (t + 1)"
  have "0 < length (vertices emitter)" using assms(2) by simp
  then have "\<exists>m'. fillEmitter emitter 0 0
      \<lparr>pdfForward_arr = replicate ?n 0, pdfBackward_arr = replicate ?n 0\<rparr> = Inr m' \<and> scratchSize m' ?n"
    by (intro fillEmitter_returns [OF scratchSize_init]) simp_all
  then obtain m1 where m1: "fillEmitter emitter 0 0
      \<lparr>pdfForward_arr = replicate ?n 0, pdfBackward_arr = replicate ?n 0\<rparr> = Inr m1" "scratchSize m1 ?n"
    by blast
  have "\<exists>m'. fillCamera camera ?n t 0 m1 = Inr m' \<and> scratchSize m' ?n"
    by (intro fillCamera_returns [OF m1(2) _ assms(1)]) simp
  then obtain m2 where m2: "fillCamera camera ?n t 0 m1 = Inr m2" "scratchSize m2 ?n" by blast
  have es: "vertex_at emitter 0 = Inr (vertices emitter ! 0)"
    using assms(2) by (simp add: vertex_at_def)
  have ct: "vertex_at camera t = Inr (vertices camera ! t)"
    using assms(1) by (simp add: vertex_at_def)
  have "usablePtr (ForwardSlot (0 + 1)) ?n" by (simp add: usablePtr_def)
  from evalPdfs_endpoint_null [OF assms(3) this m2(2)]
  show ?thesis
    using m1 m2 es ct by (simp add: misWeightFill_def Let_def ebind_def)
qed

lemma misWeightFill_camera_endpoint_at_0:
  assumes "vertices camera \<noteq> []" "isEndpoint (vertices camera ! 0)"
    and "s < length (vertices emitter)"
    and "1 \<le> s \<longrightarrow> s - 1 < length (edges emitter)"
    and "s = 0 \<longrightarrow> \<not> readsPrev (vertices emitter ! 0)"
  shows "misWeightFill camera emitter s 0 = Inl NullWrite"
proof -
  let ?n = "s + 1 + (0 + 1)"
  have "\<exists>m'. fillEmitter emitter s 0
      \<lparr>pdfForward_arr = replicate ?n 0, pdfBackward_arr = replicate ?n 0\<rparr> = Inr m' \<and> scratchSize m' ?n"
    by (intro fillEmitter_returns [OF scratchSize_init _ assms(3)]) simp
  then obtain m1 where m1: "fillEmitter emitter s 0
      \<lparr>pdfForward_arr = replicate ?n 0, pdfBackward_arr = replicate ?n 0\<rparr> = Inr m1" "scratchSize m1 ?n"
    by blast
  have "0 < length (vertices camera)" using assms(1) by simp
  then have "\<exists>m'. fillCamera camera ?n 0 0 m1 = Inr m' \<and> scratchSize m' ?n"
    by (intro fillCamera_returns [OF m1(2)]) simp_all
  then obtain m2 where m2: "fillCamera camera ?n 0 0 m1 = Inr m2" "scratchSize m2 ?n" by blast
  have es: "vertex_at emitter s = Inr (vertices emitter ! s)"
    using assms(3) by (simp add: vertex_at_def)
  have ct: "vertex_at camera 0 = Inr (vertices camera ! 0)"
    using assms(1) by (simp add: vertex_at_def)
  let ?es = "vertices emitter ! s" and ?ct = "vertices camera ! 0"
  have fwd: "usablePtr (ForwardSlot (s + 1)) ?n" by (simp add: usablePtr_def)
  have second: "evalPdfs ?ct None None ?es (reverse (mkPathEdge ?es ?ct)) (BackwardSlot s) NullPtr m3
      = Inl NullWrite" if "scratchSize m3 ?n" for m3
    by (rule evalPdfs_endpoint_null [OF assms(2) _ that]) (simp add: usablePtr_def)
  show ?thesis
  proof (cases "s = 0")
    case True
    show ?thesis
    proof (cases "isEndpoint ?es")
      case e: True
      from evalPdfs_endpoint_null [OF e fwd m2(2)]
      show ?thesis
        using True m1 m2 es ct by (simp add: misWeightFill_def Let_def ebind_def)
    next
      case e: False
      have "\<not> readsPrev ?es" using True assms(5) by simp
      with e evalPdfs_returns [OF fwd m2(2), of NullPtr ?es None None ?ct "mkPathEdge ?es ?ct"]
      obtain m3 where m3: "evalPdfs ?es None None ?ct (mkPathEdge ?es ?ct) (ForwardSlot (s + 1)) NullPtr m2
          = Inr m3" "scratchSize m3 ?n"
        by auto
      from second [OF m3(2)] show ?thesis
        using True m1 m2 m3(1) es ct by (simp add: misWeightFill_def Let_def ebind_def)
    qed
  next
    case False
    then have s: "1 \<le> s" by simp
    with assms(3,4) have ep: "vertex_at emitter (s - 1) = Inr (vertices emitter ! (s - 1))"
      and ee: "edge_at emitter (s - 1) = Inr (edges emitter ! (s - 1))"
      by (simp_all add: vertex_at_def edge_at_def)
    have "usablePtr (BackwardSlot (s - 1)) ?n" by (simp add: usablePtr_def)
    with evalPdfs_returns [OF fwd m2(2), of "BackwardSlot (s - 1)" ?es
        "Some (vertices emitter ! (s - 1))" "Some (edges emitter ! (s - 1))" ?ct "mkPathEdge ?es ?ct"]
    obtain m3 where m3: "evalPdfs ?es (Some (vertices emitter ! (s - 1))) (Some (edges emitter ! (s - 1)))
        ?ct (mkPathEdge ?es ?ct) (ForwardSlot (s + 1)) (BackwardSlot (s - 1)) m2 = Inr m3"
      "scratchSize m3 ?n"
      by auto
    from second [OF m3(2)] show ?thesis
      using False m1 m2 m3(1) es ct ep ee by (simp add: misWeightFill_def Let_def ebind_def)
  qed
qed

text \<open>
  Claim C10. On an emitter-endpoint or camera-endpoint vertex \<^verbatim>\<open>evalPdfs\<close> stores 1
  through \<^verbatim>\<open>backward\<close> whatever its other arguments are: when it returns, the slot
  behind \<^verbatim>\<open>backward\<close> holds 1, and with a null \<^verbatim>\<open>backward\<close> it never returns.
  \<^verbatim>\<open>misWeight\<close> passes a null \<^verbatim>\<open>backward\<close> for \<open>s = 0\<close> and for \<open>t = 0\<close>. So a
  call with \<open>s \<ge> 1\<close> and \<open>t \<ge> 1\<close> ends with no write through a null pointer and no
  write outside the scratch arrays; a call with \<open>s = 0\<close> whose \<open>emitter[0]\<close> is an
  endpoint vertex writes through the null pointer, and so does a call with \<open>t = 0\<close>
  whose \<open>camera[0]\<close> is an endpoint vertex (once the call on \<open>emitter[s]\<close> has
  returned, which it does unless \<open>s = 0\<close> and \<open>emitter[0]\<close> is a scatter vertex that
  reads its null \<^verbatim>\<open>prevEdge\<close>).
\<close>

theorem misWeight_null_backward_writes:
  "(isEndpoint v \<longrightarrow>
      (\<forall>m'. evalPdfs v prev prevEdge nxt nextEdge forward backward m = Inr m' \<longrightarrow> deref backward m' = Some 1)
    \<and> (\<forall>m'. evalPdfs v prev prevEdge nxt nextEdge forward NullPtr m \<noteq> Inr m'))
   \<and> (1 \<le> s \<and> 1 \<le> t \<longrightarrow>
        misWeight camera emitter s t \<noteq> Inl NullWrite \<and> misWeight camera emitter s t \<noteq> Inl OutOfRangeWrite)
   \<and> (t < length (vertices camera) \<and> vertices emitter \<noteq> [] \<and> isEndpoint (vertices emitter ! 0) \<longrightarrow>
        misWeight camera emitter 0 t = Inl NullWrite)
   \<and> (vertices camera \<noteq> [] \<and> isEndpoint (vertices camera ! 0) \<and> s < length (vertices emitter)
        \<and> (1 \<le> s \<longrightarrow> s - 1 < length (edges emitter))
        \<and> (s = 0 \<longrightarrow> \<not> readsPrev (vertices emitter ! 0)) \<longrightarrow>
        misWeight camera emitter s 0 = Inl NullWrite)"
proof (intro conjI impI allI)
  fix m' assume "isEndpoint v" "evalPdfs v prev prevEdge nxt nextEdge forward backward m = Inr m'"
  then show "deref backward m' = Some 1" by (rule evalPdfs_endpoint_backward)
next
  fix m' assume e: "isEndpoint v"
  show "evalPdfs v prev prevEdge nxt nextEdge forward NullPtr m \<noteq> Inr m'"
  proof
    assume "evalPdfs v prev prevEdge nxt nextEdge forward NullPtr m = Inr m'"
    with e have "deref NullPtr m' = Some 1" by (rule evalPdfs_endpoint_backward)
    then show False by (simp add: deref_def)
  qed
next
  assume "1 \<le> s \<and> 1 \<le> t"
  then have "noWriteFault (misWeightFill camera emitter s t)"
    by (simp add: misWeightFill_no_write_fault)
  then show "misWeight camera emitter s t \<noteq> Inl NullWrite"
    and "misWeight camera emitter s t \<noteq> Inl OutOfRangeWrite"
    by (auto simp: misWeight_def ebind_def noWriteFault_def split: sum.splits)
next
  assume "t < length (vertices camera) \<and> vertices emitter \<noteq> [] \<and> isEndpoint (vertices emitter ! 0)"
  then show "misWeight camera emitter 0 t = Inl NullWrite"
    by (simp add: misWeight_def misWeightFill_emitter_endpoint_at_0 ebind_def)
next
  assume "vertices camera \<noteq> [] \<and> isEndpoint (vertices camera ! 0) \<and> s < length (vertices emitter)
        \<and> (1 \<le> s \<longrightarrow> s - 1 < length (edges emitter))
        \<and> (s = 0 \<longrightarrow> \<not> readsPrev (vertices emitter ! 0))"
  then show "misWeight camera emitter s 0 = Inl NullWrite"
    by (simp add: misWeight_def misWeightFill_camera_endpoint_at_0 ebind_def)
qed

theorem misWeight_null_backward_witness:
  "isEndpoint exEmitterVertex
   \<and> deref (BackwardSlot 0) \<lparr>pdfForward_arr = [2], pdfBackward_arr = [1]\<rparr> = Some 1
   \<and> evalPdfs exEmitterVertex None None exCameraVertex exEdge (ForwardSlot 0) (BackwardSlot 0)
        \<lparr>pdfForward_arr = [0], pdfBackward_arr = [0]\<rparr>
      = Inr \<lparr>pdfForward_arr = [2], pdfBackward_arr = [1]\<rparr>
   \<and> evalPdfs exEmitterVertex None None exCameraVertex exEdge (ForwardSlot 0) NullPtr
        \<lparr>pdfForward_arr = [0], pdfBackward_arr = [0]\<rparr>
      \<noteq> Inr \<lparr>pdfForward_arr = [2], pdfBackward_arr = [0]\<rparr>
   \<and> misWeight (exCameraPath 1) (exEmitterPath 1) 1 1 \<noteq> Inl NullWrite
   \<and> misWeight (exCameraPath 1) (exEmitterPath 1) 1 1 \<noteq> Inl OutOfRangeWrite
   \<and> misWeight \<lparr>vertices = [exCameraRoot], edges = []\<rparr> \<lparr>vertices = [exEmitterVertex], edges = []\<rparr> 0 0
      = Inl NullWrite
   \<and> misWeight \<lparr>vertices = [exCameraVertex], edges = []\<rparr> (exEmitterPath 1) 1 0 = Inl NullWrite"
proof -
  note T = misWeight_null_backward_writes
  have e: "isEndpoint exEmitterVertex" "isEndpoint exCameraVertex"
    by (simp_all add: isEndpoint_def exEmitterVertex_def exCameraVertex_def)
  have a1: "evalPdfs exEmitterVertex None None exCameraVertex exEdge (ForwardSlot 0) (BackwardSlot 0)
        \<lparr>pdfForward_arr = [0], pdfBackward_arr = [0]\<rparr>
      = Inr \<lparr>pdfForward_arr = [2], pdfBackward_arr = [1]\<rparr>"
    by (simp add: fill_defs example_defs)
  have a2: "deref (BackwardSlot 0) \<lparr>pdfForward_arr = [2], pdfBackward_arr = [1]\<rparr> = Some 1"
    using T [where v = exEmitterVertex and prev = None and prevEdge = None and nxt = exCameraVertex
        and nextEdge = exEdge and forward = "ForwardSlot 0" and backward = "BackwardSlot 0"
        and m = "\<lparr>pdfForward_arr = [0], pdfBackward_arr = [0]\<rparr>"] e(1) a1
    by blast
  have a3: "evalPdfs exEmitterVertex None None exCameraVertex exEdge (ForwardSlot 0) NullPtr
        \<lparr>pdfForward_arr = [0], pdfBackward_arr = [0]\<rparr>
      \<noteq> Inr \<lparr>pdfForward_arr = [2], pdfBackward_arr = [0]\<rparr>"
    using T [where v = exEmitterVertex and prev = None and prevEdge = None and nxt = exCameraVertex
        and nextEdge = exEdge and forward = "ForwardSlot 0"
        and m = "\<lparr>pdfForward_arr = [0], pdfBackward_arr = [0]\<rparr>"] e(1)
    by blast
  have b: "misWeight (exCameraPath 1) (exEmitterPath 1) 1 1 \<noteq> Inl NullWrite"
    "misWeight (exCameraPath 1) (exEmitterPath 1) 1 1 \<noteq> Inl OutOfRangeWrite"
    using T [where s = 1 and t = 1 and camera = "exCameraPath 1" and emitter = "exEmitterPath 1"]
    by simp_all
  have c: "misWeight \<lparr>vertices = [exCameraRoot], edges = []\<rparr> \<lparr>vertices = [exEmitterVertex], edges = []\<rparr> 0 0
      = Inl NullWrite"
    using T [where t = 0 and camera = "\<lparr>vertices = [exCameraRoot], edges = []\<rparr>"
        and emitter = "\<lparr>vertices = [exEmitterVertex], edges = []\<rparr>"] e(1)
    by simp
  have d: "misWeight \<lparr>vertices = [exCameraVertex], edges = []\<rparr> (exEmitterPath 1) 1 0 = Inl NullWrite"
    using T [where s = 1 and camera = "\<lparr>vertices = [exCameraVertex], edges = []\<rparr>"
        and emitter = "exEmitterPath 1"] e(2)
    by (simp add: exEmitterPath_def)
  show ?thesis
    by (intro conjI e(1) a1 a2 a3 b c d)
qed

section \<open>Area-measure pdfs at a surface vertex\<close>

lemma store_other_deref:
  assumes "store ptr x m = Inr m'" "other \<noteq> ptr"
  shows "deref other m' = deref other m"
  using assms by (cases ptr; cases other) (auto simp: store_def deref_def split: if_splits)

text \<open>
  Claim C5. On a surface vertex with neighbours \<open>prev\<close> and \<open>nxt\<close>, \<^verbatim>\<open>evalPdfs\<close>
  leaves behind \<^verbatim>\<open>forward\<close> the bsdf pdf of the pair (direction to \<open>prev\<close>,
  direction to \<open>nxt\<close>) times \<open>nxt.cosineFactor(nextEdge.d) / nextEdge.rSq\<close>, and behind
  \<^verbatim>\<open>backward\<close> the bsdf pdf of the swapped pair times
  \<open>prev.cosineFactor(prevEdge.d) / prevEdge.rSq\<close>: cosine and \<open>1 / r\<^sup>2\<close> are those of
  the vertex that receives the transition. The vertex's own intersection record (its
  position and normal) has no part in either value.
\<close>

theorem evalPdfs_surface_converts_at_receiver:
  assumes "kind v = SurfaceVertex bsdf r"
    and "usablePtr forward n" "usablePtr backward n" "scratchSize m n" "forward \<noteq> backward"
  shows "\<exists>m'. evalPdfs v (Some prev) (Some prevEdge) nxt nextEdge forward backward m = Inr m'
      \<and> deref forward m' =
          Some (bsdf_pdf bsdf (makeWarpedQuery (s_event r)
                  (ev_toLocal (s_event r) (vneg (edge_d prevEdge)))
                  (ev_toLocal (s_event r) (edge_d nextEdge)))
                * cosineFactor nxt (edge_d nextEdge) / edge_rSq nextEdge)
      \<and> deref backward m' =
          Some (bsdf_pdf bsdf (makeWarpedQuery (s_event r)
                  (ev_toLocal (s_event r) (edge_d nextEdge))
                  (ev_toLocal (s_event r) (vneg (edge_d prevEdge))))
                * cosineFactor prev (edge_d prevEdge) / edge_rSq prevEdge)
      \<and> evalPdfs (v\<lparr>kind := SurfaceVertex bsdf (r\<lparr>s_info := info\<rparr>)\<rparr>)
            (Some prev) (Some prevEdge) nxt nextEdge forward backward m = Inr m'"
proof -
  let ?F = "bsdf_pdf bsdf (makeWarpedQuery (s_event r)
                  (ev_toLocal (s_event r) (vneg (edge_d prevEdge)))
                  (ev_toLocal (s_event r) (edge_d nextEdge)))
                * cosineFactor nxt (edge_d nextEdge) / edge_rSq nextEdge"
  let ?B = "bsdf_pdf bsdf (makeWarpedQuery (s_event r)
                  (ev_toLocal (s_event r) (edge_d nextEdge))
                  (ev_toLocal (s_event r) (vneg (edge_d prevEdge))))
                * cosineFactor prev (edge_d prevEdge) / edge_rSq prevEdge"
  have run: "evalPdfs v (Some prev) (Some prevEdge) nxt nextEdge forward backward m =
      ebind (store forward ?F m) (store backward ?B)"
    using assms(1) by (simp add: evalPdfs_def Let_def)
  have run': "evalPdfs (v\<lparr>kind := SurfaceVertex bsdf (r\<lparr>s_info := info\<rparr>)\<rparr>)
      (Some prev) (Some prevEdge) nxt nextEdge forward backward m =
      ebind (store forward ?F m) (store backward ?B)"
    by (simp add: evalPdfs_def Let_def)
  from store_usable [OF assms(2,4)] obtain m1 where
    m1: "store forward ?F m = Inr m1" "scratchSize m1 n" "deref forward m1 = Some ?F"
    by blast
  from store_usable [OF assms(3) m1(2)] obtain m2 where
    m2: "store backward ?B m1 = Inr m2" "deref backward m2 = Some ?B"
    by blast
  have "deref forward m2 = Some ?F"
    using store_other_deref [OF m2(1) assms(5)] m1(3) by simp
  then show ?thesis
    using run run' m1(1) m2 by (simp add: ebind_def)
qed

theorem evalPdfs_surface_witness:
  "kind exSurfaceVertex = SurfaceVertex exBsdf \<lparr>s_event = exEvent, s_data = 0, s_info = exInfo\<rparr>
   \<and> usablePtr (ForwardSlot 1) 2 \<and> usablePtr (BackwardSlot 0) 2
   \<and> scratchSize \<lparr>pdfForward_arr = [0, 0], pdfBackward_arr = [0, 0]\<rparr> 2
   \<and> evalPdfs exSurfaceVertex (Some exEmitterVertex) (Some (exEdge\<lparr>edge_rSq := 4\<rparr>))
        exVolumeVertex (exEdge\<lparr>edge_rSq := 2\<rparr>) (ForwardSlot 1) (BackwardSlot 0)
        \<lparr>pdfForward_arr = [0, 0], pdfBackward_arr = [0, 0]\<rparr>
      = Inr \<lparr>pdfForward_arr = [0, 1 / 2], pdfBackward_arr = [1 / 4, 0]\<rparr>"
proof -
  have k: "kind exSurfaceVertex = SurfaceVertex exBsdf \<lparr>s_event = exEvent, s_data = 0, s_info = exInfo\<rparr>"
    by (simp add: exSurfaceVertex_def)
  have p: "usablePtr (ForwardSlot 1) 2" "usablePtr (BackwardSlot 0) 2"
    by (simp_all add: usablePtr_def)
  have z: "scratchSize \<lparr>pdfForward_arr = [0, 0], pdfBackward_arr = [0, 0]\<rparr> 2"
    by (simp add: scratchSize_def)
  have d: "ForwardSlot 1 \<noteq> BackwardSlot 0" by simp
  from evalPdfs_surface_converts_at_receiver [OF k p z d,
      of exEmitterVertex "exEdge\<lparr>edge_rSq := 4\<rparr>" exVolumeVertex "exEdge\<lparr>edge_rSq := 2\<rparr>" exInfo]
  obtain m' where m': "evalPdfs exSurfaceVertex (Some exEmitterVertex) (Some (exEdge\<lparr>edge_rSq := 4\<rparr>))
        exVolumeVertex (exEdge\<lparr>edge_rSq := 2\<rparr>) (ForwardSlot 1) (BackwardSlot 0)
        \<lparr>pdfForward_arr = [0, 0], pdfBackward_arr = [0, 0]\<rparr> = Inr m'"
    by blast
  have "evalPdfs exSurfaceVertex (Some exEmitterVertex) (Some (exEdge\<lparr>edge_rSq := 4\<rparr>))
        exVolumeVertex (exEdge\<lparr>edge_rSq := 2\<rparr>) (ForwardSlot 1) (BackwardSlot 0)
        \<lparr>pdfForward_arr = [0, 0], pdfBackward_arr = [0, 0]\<rparr>
      = Inr \<lparr>pdfForward_arr = [0, 1 / 2], pdfBackward_arr = [1 / 4, 0]\<rparr>"
    by (simp add: fill_defs example_defs exSurfaceVertex_def exEvent_def exBsdf_def exInfo_def)
  then show ?thesis using k p z m' by simp
qed

section \<open>Connections between two vertices\<close>

text \<open>
  Claim C4. For every pair of vertices \<open>a\<close>, \<open>b\<close> with the edge \<open>PathEdge(a, b)\<close>:
  when the shadow ray from \<open>a.pos()\<close> along the edge, with the parametric window
  \<open>[1e-4, r (1 - 1e-4)]\<close>, is occluded, \<^verbatim>\<open>connect(scene, a, b)\<close> is the zero colour;
  otherwise it is \<open>a.throughput * a.eval(d) * b.eval(-d) * b.throughput / rSq\<close>, where
  \<open>d\<close> is the direction of the edge.
\<close>

theorem connect_occluded_or_throughput:
  "(occluded scene \<lparr>ray_pos = pos a, ray_dir = edge_d (mkPathEdge a b),
                     ray_window = Some (1 / 10000, edge_r (mkPathEdge a b) * (1 - 1 / 10000)),
                     ray_primary = False\<rparr>
      \<longrightarrow> connect scene a b = vzero)
   \<and> (\<not> occluded scene \<lparr>ray_pos = pos a, ray_dir = edge_d (mkPathEdge a b),
                     ray_window = Some (1 / 10000, edge_r (mkPathEdge a b) * (1 - 1 / 10000)),
                     ray_primary = False\<rparr>
      \<longrightarrow> connect scene a b =
            vdivs (vmul (vmul (vmul (throughput a) (eval a (edge_d (mkPathEdge a b))))
                              (eval b (vneg (edge_d (mkPathEdge a b)))))
                        (throughput b))
                  (edge_rSq (mkPathEdge a b)))"
  by (simp add: connect_def Ray4_def Let_def)

theorem connect_witness:
  "occluded exDark \<lparr>ray_pos = vzero, ray_dir = unitX,
                     ray_window = Some (1 / 10000, 1 * (1 - 1 / 10000)), ray_primary = False\<rparr>
   \<and> connect exDark (exEmitterVertex\<lparr>throughput := Vec3f 2 3 4\<rparr>) exVolumeVertex = vzero
   \<and> \<not> occluded exScene \<lparr>ray_pos = vzero, ray_dir = unitX,
                     ray_window = Some (1 / 10000, 1 * (1 - 1 / 10000)), ray_primary = False\<rparr>
   \<and> connect exScene (exEmitterVertex\<lparr>throughput := Vec3f 2 3 4\<rparr>) exVolumeVertex = Vec3f 2 3 4"
proof -
  have e: "mkPathEdge (exEmitterVertex\<lparr>throughput := Vec3f 2 3 4\<rparr>) exVolumeVertex = exEdge"
    by (simp add: mkPathEdge_def pos_def example_defs Let_def)
  have p: "pos (exEmitterVertex\<lparr>throughput := Vec3f 2 3 4\<rparr>) = vzero"
    by (simp add: pos_def example_defs)
  have v: "vdivs (vmul (vmul (vmul (throughput (exEmitterVertex\<lparr>throughput := Vec3f 2 3 4\<rparr>))
                (eval (exEmitterVertex\<lparr>throughput := Vec3f 2 3 4\<rparr>) (edge_d exEdge)))
                (eval exVolumeVertex (vneg (edge_d exEdge)))) (throughput exVolumeVertex)) (edge_rSq exEdge)
      = Vec3f 2 3 4"
    by (simp add: eval_def example_defs)
  have dark: "occluded exDark ray" for ray by (simp add: exDark_def)
  have clear: "\<not> occluded exScene ray" for ray by (simp add: exScene_def)
  have 1: "connect exDark (exEmitterVertex\<lparr>throughput := Vec3f 2 3 4\<rparr>) exVolumeVertex = vzero"
    using connect_occluded_or_throughput [of exDark "exEmitterVertex\<lparr>throughput := Vec3f 2 3 4\<rparr>" exVolumeVertex]
      dark by blast
  have 2: "connect exScene (exEmitterVertex\<lparr>throughput := Vec3f 2 3 4\<rparr>) exVolumeVertex = Vec3f 2 3 4"
    using connect_occluded_or_throughput [of exScene "exEmitterVertex\<lparr>throughput := Vec3f 2 3 4\<rparr>" exVolumeVertex]
      clear unfolding e v by blast
  show ?thesis using 1 2 dark clear by blast
qed

text \<open>
  Claim C7. The camera-splat connection returns false when the shadow ray between \<open>a\<close>
  and \<open>b\<close> is occluded, and when the camera's \<^verbatim>\<open>evalDirection\<close> returns false (the
  direction falls outside the sensor). Whenever the function returns, the out-parameter
  \<^verbatim>\<open>weight\<close> has been assigned exactly when the returned flag is true.
\<close>

theorem connect_splat_false_without_weight:
  "(occluded scene \<lparr>ray_pos = pos a, ray_dir = edge_d (mkPathEdge a b),
                     ray_window = Some (1 / 10000, edge_r (mkPathEdge a b) * (1 - 1 / 10000)),
                     ray_primary = False\<rparr>
      \<longrightarrow> connect_splat scene a b sampler pixel =
            Inr \<lparr>cs_ok = False, cs_sampler = sampler, cs_weight = None, cs_pixel = pixel\<rparr>)
   \<and> (\<not> occluded scene \<lparr>ray_pos = pos a, ray_dir = edge_d (mkPathEdge a b),
                     ray_window = Some (1 / 10000, edge_r (mkPathEdge a b) * (1 - 1 / 10000)),
                     ray_primary = False\<rparr>
       \<and> kind a = CameraVertex cam r
       \<and> \<not> fst (evalDirection cam sampler (c_point r) (DirectionSample_of (edge_d (mkPathEdge a b))) pixel)
      \<longrightarrow> (\<exists>res. connect_splat scene a b sampler pixel = Inr res \<and> \<not> cs_ok res \<and> cs_weight res = None))
   \<and> (\<forall>res. connect_splat scene a b sampler pixel = Inr res \<longrightarrow> (cs_ok res \<longleftrightarrow> cs_weight res \<noteq> None))"
proof (intro conjI impI allI)
  assume "occluded scene \<lparr>ray_pos = pos a, ray_dir = edge_d (mkPathEdge a b),
                     ray_window = Some (1 / 10000, edge_r (mkPathEdge a b) * (1 - 1 / 10000)),
                     ray_primary = False\<rparr>"
  then show "connect_splat scene a b sampler pixel =
            Inr \<lparr>cs_ok = False, cs_sampler = sampler, cs_weight = None, cs_pixel = pixel\<rparr>"
    by (simp add: connect_splat_def Ray4_def Let_def)
next
  assume "\<not> occluded scene \<lparr>ray_pos = pos a, ray_dir = edge_d (mkPathEdge a b),
                     ray_window = Some (1 / 10000, edge_r (mkPathEdge a b) * (1 - 1 / 10000)),
                     ray_primary = False\<rparr>
       \<and> kind a = CameraVertex cam r
       \<and> \<not> fst (evalDirection cam sampler (c_point r) (DirectionSample_of (edge_d (mkPathEdge a b))) pixel)"
  then have o: "\<not> occluded scene (Ray4 (pos a) (edge_d (mkPathEdge a b)) (1 / 10000)
                     (edge_r (mkPathEdge a b) * (1 - 1 / 10000)))"
    and k: "kind a = CameraVertex cam r"
    and f: "\<not> fst (evalDirection cam sampler (c_point r) (DirectionSample_of (edge_d (mkPathEdge a b))) pixel)"
    by (simp_all add: Ray4_def)
  obtain ok sampler1 splatWeight pixel1 where
    ed: "evalDirection cam sampler (c_point r) (DirectionSample_of (edge_d (mkPathEdge a b))) pixel
         = (ok, sampler1, splatWeight, pixel1)"
    by (rule prod_cases4)
  with f have "\<not> ok" by simp
  then have "connect_splat scene a b sampler pixel =
      Inr \<lparr>cs_ok = False, cs_sampler = sampler1, cs_weight = None, cs_pixel = pixel1\<rparr>"
    using o k ed by (simp add: connect_splat_def Let_def)
  then show "\<exists>res. connect_splat scene a b sampler pixel = Inr res \<and> \<not> cs_ok res \<and> cs_weight res = None"
    by simp
next
  fix res assume "connect_splat scene a b sampler pixel = Inr res"
  then show "cs_ok res \<longleftrightarrow> cs_weight res \<noteq> None"
    by (cases "kind a")
      (auto simp: connect_splat_def Ray4_def Let_def split: if_splits prod.splits)
qed

theorem connect_splat_witness:
  "connect_splat exDark exCameraVertex exVolumeVertex 0 (3, 4) =
     Inr \<lparr>cs_ok = False, cs_sampler = 0, cs_weight = None, cs_pixel = (3, 4)\<rparr>
   \<and> connect_splat exScene (exCameraVertex\<lparr>kind := CameraVertex exCamera
          \<lparr>c_pixel = (0, 0), c_point = exPoint vzero, c_direction = exDirection\<rparr>\<rparr>)
        (exVolumeVertex\<lparr>kind := VolumeVertex exMedium
          \<lparr>vol_p = Vec3f (- 1) 0 0, vol_wi = unitX, vol_wo = unitX, vol_pdf = 1, vol_throughput = vone\<rparr>\<rparr>)
        0 (3, 4) =
     Inr \<lparr>cs_ok = False, cs_sampler = 1, cs_weight = None, cs_pixel = (7, 8)\<rparr>
   \<and> connect_splat exScene (exCameraVertex\<lparr>kind := CameraVertex exCamera
          \<lparr>c_pixel = (0, 0), c_point = exPoint vzero, c_direction = exDirection\<rparr>\<rparr>)
        exVolumeVertex 0 (3, 4) =
     Inr \<lparr>cs_ok = True, cs_sampler = 1, cs_weight = Some (Vec3f 5 5 5), cs_pixel = (7, 8)\<rparr>"
proof -
  let ?cam = "exCameraVertex\<lparr>kind := CameraVertex exCamera
          \<lparr>c_pixel = (0, 0), c_point = exPoint vzero, c_direction = exDirection\<rparr>\<rparr>"
  let ?left = "exVolumeVertex\<lparr>kind := VolumeVertex exMedium
          \<lparr>vol_p = Vec3f (- 1) 0 0, vol_wi = unitX, vol_wo = unitX, vol_pdf = 1, vol_throughput = vone\<rparr>\<rparr>"
  have dark: "occluded exDark ray" for ray by (simp add: exDark_def)
  have 1: "connect_splat exDark exCameraVertex exVolumeVertex 0 (3, 4) =
     Inr \<lparr>cs_ok = False, cs_sampler = 0, cs_weight = None, cs_pixel = (3, 4)\<rparr>"
    using connect_splat_false_without_weight [of exDark exCameraVertex exVolumeVertex 0 "(3, 4)"] dark
    by blast
  have 2: "connect_splat exScene ?cam ?left 0 (3, 4) =
     Inr \<lparr>cs_ok = False, cs_sampler = 1, cs_weight = None, cs_pixel = (7, 8)\<rparr>"
    by (simp add: connect_splat_def mkPathEdge_def pos_def Ray4_def Let_def DirectionSample_of_def
        example_defs exScene_def)
  have 3: "connect_splat exScene ?cam exVolumeVertex 0 (3, 4) =
     Inr \<lparr>cs_ok = True, cs_sampler = 1, cs_weight = Some (Vec3f 5 5 5), cs_pixel = (7, 8)\<rparr>"
    by (simp add: connect_splat_def mkPathEdge_def pos_def eval_def Ray4_def Let_def DirectionSample_of_def
        vol_makeWarpedQuery_def example_defs exScene_def)
  show ?thesis using 1 2 3 by simp
qed

section \<open>What scatter leaves behind\<close>

text \<open>What the \<^verbatim>\<open>switch\<close> leaves behind when it returns, and when it breaks out.\<close>

lemma scatterSwitch_Return:
  assumes "scatterSwitch tracer this state prev prevEdge = Inr (Return res)"
  shows "sr_prev res = prev \<and> st_bounce (sr_state res) = st_bounce state
       \<and> (\<not> sr_ok res \<longrightarrow> sr_next res = None \<and> sr_nextEdge res = None)
       \<and> (\<forall>nxt bsdf r. sr_next res = Some nxt \<longrightarrow> kind nxt \<noteq> SurfaceVertex bsdf r)"
proof (cases "kind this")
  case (EmitterRoot em r)
  then show ?thesis using assms
    by (auto simp: scatterSwitch_def scatterFailed_def mkPathVertex_def Let_def split: prod.splits if_splits)
next
  case (CameraRoot cam r)
  then show ?thesis using assms
    by (auto simp: scatterSwitch_def scatterFailed_def mkPathVertex_def Let_def split: prod.splits if_splits)
next
  case (EmitterVertex em r)
  then show ?thesis using assms
    by (auto simp: scatterSwitch_def scatterFailed_def Let_def split: prod.splits if_splits option.splits)
next
  case (CameraVertex cam r)
  then show ?thesis using assms
    by (auto simp: scatterSwitch_def scatterFailed_def Let_def split: prod.splits if_splits option.splits)
next
  case (SurfaceVertex bsdf r)
  then show ?thesis using assms
    by (auto simp: scatterSwitch_def scatterFailed_def Let_def split: prod.splits if_splits option.splits)
next
  case (VolumeVertex med r)
  then show ?thesis using assms
    by (auto simp: scatterSwitch_def scatterFailed_def)
qed

lemma scatterSwitch_Break:
  assumes "scatterSwitch tracer this state prev prevEdge = Inr (Break pdf0 this1 state1 prev1)"
  shows "st_bounce state1 = st_bounce state \<and> throughput this1 = throughput this \<and> pdf0 = pdf this1
       \<and> (\<exists>pv x. prev = Some pv \<and> prev1 = Some (pv\<lparr>pdfBackward := x\<rparr>))
       \<and> (\<forall>em r. kind this \<noteq> EmitterRoot em r) \<and> (\<forall>cam r. kind this \<noteq> CameraRoot cam r)"
proof (cases "kind this")
  case (EmitterRoot em r)
  then show ?thesis using assms
    by (auto simp: scatterSwitch_def Let_def split: prod.splits if_splits)
next
  case (CameraRoot cam r)
  then show ?thesis using assms
    by (auto simp: scatterSwitch_def Let_def split: prod.splits if_splits)
next
  case (EmitterVertex em r)
  then show ?thesis using assms
    by (auto simp: scatterSwitch_def pdf_def Let_def split: prod.splits if_splits option.splits)
next
  case (CameraVertex cam r)
  then show ?thesis using assms
    by (auto simp: scatterSwitch_def pdf_def Let_def split: prod.splits if_splits option.splits)
next
  case (SurfaceVertex bsdf r)
  then show ?thesis using assms
    by (auto simp: scatterSwitch_def pdf_def Let_def split: prod.splits if_splits option.splits)
next
  case (VolumeVertex med r)
  then show ?thesis using assms
    by (auto simp: scatterSwitch_def)
qed

lemma scatterTail_miss:
  assumes "\<not> fst (intersect scene (st_ray state))"
  shows "scatterTail scene tracer nextAddr pdf0 this state prev =
     scatterFailed this (state\<lparr>st_ray := fst (snd (intersect scene (st_ray state)))\<rparr>) prev"
proof -
  obtain didHit ray1 data info where i: "intersect scene (st_ray state) = (didHit, ray1, data, info)"
    by (rule prod_cases4)
  with assms have "\<not> didHit" by simp
  then show ?thesis using i by (simp add: scatterTail_def)
qed

lemma pos_pdfForward_update: "pos (v\<lparr>pdfForward := x\<rparr>) = pos v"
  by (simp add: pos_def)

lemma cosineFactor_pdfForward_update: "cosineFactor (v\<lparr>pdfForward := x\<rparr>) dir = cosineFactor v dir"
  by (simp add: cosineFactor_def)

lemma mkPathEdge_pdfForward_update: "mkPathEdge a (v\<lparr>pdfForward := x\<rparr>) = mkPathEdge a v"
  by (simp add: mkPathEdge_def pos_pdfForward_update)

lemma scatterTail_hit:
  assumes "fst (intersect scene (st_ray state))"
  shows "\<exists>nxt bsdf r.
      sr_ok (scatterTail scene tracer nextAddr pdf0 this state prev)
    \<and> sr_this (scatterTail scene tracer nextAddr pdf0 this state prev) = this
    \<and> sr_prev (scatterTail scene tracer nextAddr pdf0 this state prev) = prev
    \<and> sr_next (scatterTail scene tracer nextAddr pdf0 this state prev) = Some nxt
    \<and> sr_nextEdge (scatterTail scene tracer nextAddr pdf0 this state prev) = Some (mkPathEdge this nxt)
    \<and> st_bounce (sr_state (scatterTail scene tracer nextAddr pdf0 this state prev)) = st_bounce state + 1
    \<and> kind nxt = SurfaceVertex bsdf r
    \<and> ev_info (s_event r) = InfoOfVertex nextAddr
    \<and> throughput nxt = vmul (throughput this) (weight this)
    \<and> pdfForward nxt =
        pdf0 * cosineFactor nxt (edge_d (mkPathEdge this nxt)) / edge_rSq (mkPathEdge this nxt)"
proof -
  obtain didHit ray1 data info where i: "intersect scene (st_ray state) = (didHit, ray1, data, info)"
    by (rule prod_cases4)
  with assms have hit: "didHit" by simp
  define le where "le = makeLocalScatterEvent tracer data info ray1
      (st_sampler state) (st_supplementalSampler state)"
  define r where "r = \<lparr>s_event = (le_event le)\<lparr>ev_info := InfoOfVertex nextAddr\<rparr>,
      s_data = le_data le, s_info = le_info le\<rparr>"
  define next1 where "next1 = \<lparr>kind = SurfaceVertex (ii_bsdf (le_info le)) r,
      throughput = vmul (throughput this) (weight this), pdfForward = 0, pdfBackward = 0\<rparr>"
  define nxt where "nxt = next1\<lparr>pdfForward :=
      pdf0 * cosineFactor next1 (edge_d (mkPathEdge this next1)) / edge_rSq (mkPathEdge this next1)\<rparr>"
  let ?res = "scatterTail scene tracer nextAddr pdf0 this state prev"
  have e: "mkPathEdge this nxt = mkPathEdge this next1"
    unfolding nxt_def by (rule mkPathEdge_pdfForward_update)
  have c: "cosineFactor nxt dir = cosineFactor next1 dir" for dir
    unfolding nxt_def by (rule cosineFactor_pdfForward_update)
  have "sr_ok ?res" "sr_this ?res = this" "sr_prev ?res = prev"
    "st_bounce (sr_state ?res) = st_bounce state + 1"
    using i hit by (simp_all add: scatterTail_def Let_def)
  moreover have "sr_next ?res = Some nxt"
    using i hit by (simp add: scatterTail_def Let_def mkPathVertex_def nxt_def next1_def r_def le_def)
  moreover have "sr_nextEdge ?res = Some (mkPathEdge this next1)"
    using i hit by (simp add: scatterTail_def Let_def mkPathVertex_def next1_def r_def le_def)
  moreover have "kind nxt = SurfaceVertex (ii_bsdf (le_info le)) r"
    by (simp add: nxt_def next1_def)
  moreover have "ev_info (s_event r) = InfoOfVertex nextAddr"
    by (simp add: r_def)
  moreover have "throughput nxt = vmul (throughput this) (weight this)"
    by (simp add: nxt_def next1_def)
  moreover have "pdfForward nxt =
      pdf0 * cosineFactor nxt (edge_d (mkPathEdge this nxt)) / edge_rSq (mkPathEdge this nxt)"
    unfolding e c by (simp add: nxt_def)
  ultimately show ?thesis
    unfolding e [symmetric] by blast
qed

text \<open>
  Claim C8. On a vertex of kind \<open>VolumeVertex\<close>, \<^verbatim>\<open>scatter\<close> returns false, whatever
  the scene, the tracer, the state and the neighbours are; nothing is written.
\<close>

theorem scatter_volume_returns_false:
  assumes "kind this = VolumeVertex med r"
  shows "scatter scene tracer nextAddr this state prev prevEdge = Inr (scatterFailed this state prev)
       \<and> \<not> sr_ok (scatterFailed this state prev)"
  using assms by (simp add: scatter_def scatterSwitch_def ebind_def scatterFailed_def)

theorem scatter_volume_witness:
  "kind exVolumeVertex = VolumeVertex exMedium
      \<lparr>vol_p = unitX, vol_wi = unitX, vol_wo = unitX, vol_pdf = 1, vol_throughput = vone\<rparr>
   \<and> scatter exScene exTracer 7 exVolumeVertex exState (Some exEmitterVertex) (Some exEdge) =
      Inr \<lparr>sr_ok = False, sr_this = exVolumeVertex, sr_state = exState, sr_prev = Some exEmitterVertex,
           sr_next = None, sr_nextEdge = None\<rparr>"
proof -
  have k: "kind exVolumeVertex = VolumeVertex exMedium
      \<lparr>vol_p = unitX, vol_wi = unitX, vol_wo = unitX, vol_pdf = 1, vol_throughput = vone\<rparr>"
    by (simp add: exVolumeVertex_def)
  from scatter_volume_returns_false [OF k, of exScene exTracer 7 exState "Some exEmitterVertex" "Some exEdge"]
  show ?thesis using k by (simp add: scatterFailed_def)
qed

lemma scatter_cases:
  assumes "scatter scene tracer nextAddr this state prev prevEdge = Inr res"
  shows "scatterSwitch tracer this state prev prevEdge = Inr (Return res)
       \<or> (\<exists>pdf0 this1 state1 prev1.
            scatterSwitch tracer this state prev prevEdge = Inr (Break pdf0 this1 state1 prev1)
          \<and> res = scatterTail scene tracer nextAddr pdf0 this1 state1 prev1)"
proof (cases "scatterSwitch tracer this state prev prevEdge")
  case (Inl e)
  then show ?thesis using assms by (simp add: scatter_def ebind_def)
next
  case (Inr exit)
  then show ?thesis using assms by (cases exit) (auto simp: scatter_def ebind_def)
qed

lemma scatter_Break:
  assumes "scatterSwitch tracer this state prev prevEdge = Inr (Break pdf0 this1 state1 prev1)"
  shows "scatter scene tracer nextAddr this state prev prevEdge =
     Inr (scatterTail scene tracer nextAddr pdf0 this1 state1 prev1)"
  using assms by (simp add: scatter_def ebind_def)

lemma scatterFailed_sel [simp]:
  "sr_ok (scatterFailed this state prev) = False"
  "sr_this (scatterFailed this state prev) = this"
  "sr_state (scatterFailed this state prev) = state"
  "sr_prev (scatterFailed this state prev) = prev"
  "sr_next (scatterFailed this state prev) = None"
  "sr_nextEdge (scatterFailed this state prev) = None"
  by (simp_all add: scatterFailed_def)

text \<open>
  Claim C3. Let \<^verbatim>\<open>scatter\<close> on a vertex reach the shared tracing tail: the
  \<^verbatim>\<open>switch\<close> breaks out with the local \<open>pdf\<close>, leaving the vertex as \<open>this1\<close> (its
  record holds the sampled direction) and the state as \<open>state1\<close>. The vertex is no
  root. If the scene intersection fails, \<^verbatim>\<open>scatter\<close> returns false. Otherwise it
  returns true; \<open>next\<close> is a surface vertex whose throughput is the throughput of the
  vertex times its \<open>weight()\<close>; \<open>state.bounce\<close> is one more than at the call;
  \<open>nextEdge\<close> is \<open>PathEdge(this, next)\<close>; and \<open>next.pdfForward\<close> is the pdf of the
  sampling step (which is \<open>pdf()\<close> of the vertex) times
  \<open>next.cosineFactor(nextEdge.d) / nextEdge.rSq\<close>.
\<close>

theorem scatter_shared_tail:
  assumes "scatterSwitch tracer this state prev prevEdge = Inr (Break pdf0 this1 state1 prev1)"
  shows "(\<forall>em r. kind this \<noteq> EmitterRoot em r) \<and> (\<forall>cam r. kind this \<noteq> CameraRoot cam r)
     \<and> (\<not> fst (intersect scene (st_ray state1)) \<longrightarrow>
          (\<exists>res. scatter scene tracer nextAddr this state prev prevEdge = Inr res \<and> \<not> sr_ok res))
     \<and> (fst (intersect scene (st_ray state1)) \<longrightarrow>
          (\<exists>res nxt bsdf r.
              scatter scene tracer nextAddr this state prev prevEdge = Inr res
            \<and> sr_ok res \<and> sr_this res = this1 \<and> sr_next res = Some nxt
            \<and> kind nxt = SurfaceVertex bsdf r
            \<and> throughput nxt = vmul (throughput this1) (weight this1)
            \<and> throughput this1 = throughput this
            \<and> st_bounce (sr_state res) = st_bounce state + 1
            \<and> sr_nextEdge res = Some (mkPathEdge this1 nxt)
            \<and> pdf0 = pdf this1
            \<and> pdfForward nxt =
                pdf0 * cosineFactor nxt (edge_d (mkPathEdge this1 nxt)) / edge_rSq (mkPathEdge this1 nxt)))"
proof -
  note B = scatterSwitch_Break [OF assms]
  note S = scatter_Break [OF assms, of scene nextAddr]
  have miss: "\<exists>res. scatter scene tracer nextAddr this state prev prevEdge = Inr res \<and> \<not> sr_ok res"
    if "\<not> fst (intersect scene (st_ray state1))"
    using S scatterTail_miss [OF that, of tracer nextAddr pdf0 this1 prev1] by simp
  have hit: "\<exists>res nxt bsdf r.
              scatter scene tracer nextAddr this state prev prevEdge = Inr res
            \<and> sr_ok res \<and> sr_this res = this1 \<and> sr_next res = Some nxt
            \<and> kind nxt = SurfaceVertex bsdf r
            \<and> throughput nxt = vmul (throughput this1) (weight this1)
            \<and> throughput this1 = throughput this
            \<and> st_bounce (sr_state res) = st_bounce state + 1
            \<and> sr_nextEdge res = Some (mkPathEdge this1 nxt)
            \<and> pdf0 = pdf this1
            \<and> pdfForward nxt =
                pdf0 * cosineFactor nxt (edge_d (mkPathEdge this1 nxt)) / edge_rSq (mkPathEdge this1 nxt)"
    if "fst (intersect scene (st_ray state1))"
  proof -
    from scatterTail_hit [OF that, of tracer nextAddr pdf0 this1 prev1]
    obtain nxt bsdf r where t:
      "sr_ok (scatterTail scene tracer nextAddr pdf0 this1 state1 prev1)"
      "sr_this (scatterTail scene tracer nextAddr pdf0 this1 state1 prev1) = this1"
      "sr_next (scatterTail scene tracer nextAddr pdf0 this1 state1 prev1) = Some nxt"
      "sr_nextEdge (scatterTail scene tracer nextAddr pdf0 this1 state1 prev1) = Some (mkPathEdge this1 nxt)"
      "st_bounce (sr_state (scatterTail scene tracer nextAddr pdf0 this1 state1 prev1)) = st_bounce state1 + 1"
      "kind nxt = SurfaceVertex bsdf r"
      "throughput nxt = vmul (throughput this1) (weight this1)"
      "pdfForward nxt =
        pdf0 * cosineFactor nxt (edge_d (mkPathEdge this1 nxt)) / edge_rSq (mkPathEdge this1 nxt)"
      by blast
    show ?thesis
      using S t B by (intro exI [of _ "scatterTail scene tracer nextAddr pdf0 this1 state1 prev1"]
          exI [of _ nxt] exI [of _ bsdf] exI [of _ r]) simp
  qed
  show ?thesis using B miss hit by blast
qed

theorem scatter_shared_tail_witness:
  "scatterSwitch exTracer exEmitterVertex exState (Some exEmitterRoot) None =
     Inr (Break 3 exEmitterVertex (exState\<lparr>st_sampler := 1\<rparr>) (Some exEmitterRoot))
   \<and> \<not> fst (intersect exDark (st_ray (exState\<lparr>st_sampler := 1\<rparr>)))
   \<and> (\<exists>res. scatter exDark exTracer 7 exEmitterVertex exState (Some exEmitterRoot) None = Inr res
          \<and> \<not> sr_ok res)
   \<and> fst (intersect exScene (st_ray (exState\<lparr>st_sampler := 1\<rparr>)))
   \<and> scatter exScene exTracer 7 exEmitterVertex exState (Some exEmitterRoot) None =
       Inr \<lparr>sr_ok = True, sr_this = exEmitterVertex,
            sr_state = exState\<lparr>st_sampler := 1, st_bounce := 1\<rparr>,
            sr_prev = Some exEmitterRoot,
            sr_next = Some \<lparr>kind = SurfaceVertex exBsdf
                                \<lparr>s_event = exEvent\<lparr>ev_info := InfoOfVertex 7\<rparr>, s_data = 0, s_info = exInfo\<rparr>,
                             throughput = Vec3f 2 2 2, pdfForward = 3, pdfBackward = 0\<rparr>,
            sr_nextEdge = Some exEdge\<rparr>"
proof -
  have sw: "scatterSwitch exTracer exEmitterVertex exState (Some exEmitterRoot) None =
     Inr (Break 3 exEmitterVertex (exState\<lparr>st_sampler := 1\<rparr>) (Some exEmitterRoot))"
    by (simp add: scatterSwitch_def exEmitterVertex_def exEmitter_def exState_def exEmitterRoot_def
        exDirection_def exPoint_def Ray2_def Let_def)
  have miss: "\<not> fst (intersect exDark (st_ray (exState\<lparr>st_sampler := 1\<rparr>)))"
    by (simp add: exDark_def)
  have hit: "fst (intersect exScene (st_ray (exState\<lparr>st_sampler := 1\<rparr>)))"
    by (simp add: exScene_def exState_def Ray2_def)
  have 1: "\<exists>res. scatter exDark exTracer 7 exEmitterVertex exState (Some exEmitterRoot) None = Inr res
          \<and> \<not> sr_ok res"
    using scatter_shared_tail [OF sw, of exDark 7] miss by blast
  have 2: "scatter exScene exTracer 7 exEmitterVertex exState (Some exEmitterRoot) None =
       Inr \<lparr>sr_ok = True, sr_this = exEmitterVertex,
            sr_state = exState\<lparr>st_sampler := 1, st_bounce := 1\<rparr>,
            sr_prev = Some exEmitterRoot,
            sr_next = Some \<lparr>kind = SurfaceVertex exBsdf
                                \<lparr>s_event = exEvent\<lparr>ev_info := InfoOfVertex 7\<rparr>, s_data = 0, s_info = exInfo\<rparr>,
                             throughput = Vec3f 2 2 2, pdfForward = 3, pdfBackward = 0\<rparr>,
            sr_nextEdge = Some exEdge\<rparr>"
    unfolding scatter_Break [OF sw]
    by (simp add: scatterTail_def exScene_def exTracer_def exState_def Ray2_def Let_def mkPathVertex_def
        mkPathEdge_def pos_def cosineFactor_def weight_def exInfo_def exEmitterVertex_def
        exDirection_def exPoint_def exEdge_def unitX_def vzero_def vone_def)
  show ?thesis using sw miss hit 1 2 by blast
qed

text \<open>
  Claim C6. Whenever \<^verbatim>\<open>scatter\<close> returns false, on a vertex of any kind, neither
  \<open>next\<close> nor \<open>nextEdge\<close> has been assigned and \<open>state.bounce\<close> is what it was at
  the call; \<open>*prev\<close> is what it was, but for its member \<open>pdfBackward\<close>, and it is
  entirely what it was when the \<^verbatim>\<open>switch\<close> itself returned (only a failed
  intersection in the shared tail comes after the assignment to \<open>prev->pdfBackward\<close>).
\<close>

theorem scatter_failure_frame:
  assumes "scatter scene tracer nextAddr this state prev prevEdge = Inr res" "\<not> sr_ok res"
  shows "sr_next res = None \<and> sr_nextEdge res = None \<and> st_bounce (sr_state res) = st_bounce state
     \<and> (sr_prev res = prev \<or> (\<exists>pv x. prev = Some pv \<and> sr_prev res = Some (pv\<lparr>pdfBackward := x\<rparr>)))
     \<and> ((\<exists>r. scatterSwitch tracer this state prev prevEdge = Inr (Return r)) \<longrightarrow> sr_prev res = prev)"
proof -
  from scatter_cases [OF assms(1)] show ?thesis
  proof
    assume r: "scatterSwitch tracer this state prev prevEdge = Inr (Return res)"
    from scatterSwitch_Return [OF r] assms(2) show ?thesis by simp
  next
    assume "\<exists>pdf0 this1 state1 prev1.
            scatterSwitch tracer this state prev prevEdge = Inr (Break pdf0 this1 state1 prev1)
          \<and> res = scatterTail scene tracer nextAddr pdf0 this1 state1 prev1"
    then obtain pdf0 this1 state1 prev1 where
      b: "scatterSwitch tracer this state prev prevEdge = Inr (Break pdf0 this1 state1 prev1)"
      and res: "res = scatterTail scene tracer nextAddr pdf0 this1 state1 prev1"
      by blast
    have miss: "\<not> fst (intersect scene (st_ray state1))"
    proof
      assume "fst (intersect scene (st_ray state1))"
      from scatterTail_hit [OF this, of tracer nextAddr pdf0 this1 prev1] assms(2) res
      show False by blast
    qed
    have "res = scatterFailed this1 (state1\<lparr>st_ray := fst (snd (intersect scene (st_ray state1)))\<rparr>) prev1"
      using res scatterTail_miss [OF miss] by simp
    then show ?thesis
      using scatterSwitch_Break [OF b] b by auto
  qed
qed

theorem scatter_failure_frame_witness:
  "scatter exDark exTracer 7 exEmitterVertex (exState\<lparr>st_bounce := 4\<rparr>)
      (Some (exEmitterRoot\<lparr>pdfBackward := 5\<rparr>)) None =
     Inr \<lparr>sr_ok = False, sr_this = exEmitterVertex,
          sr_state = exState\<lparr>st_sampler := 1, st_bounce := 4\<rparr>,
          sr_prev = Some (exEmitterRoot\<lparr>pdfBackward := 1\<rparr>), sr_next = None, sr_nextEdge = None\<rparr>
   \<and> st_bounce (exState\<lparr>st_sampler := 1, st_bounce := 4\<rparr>) = st_bounce (exState\<lparr>st_bounce := 4\<rparr>)
   \<and> (\<exists>pv x. Some (exEmitterRoot\<lparr>pdfBackward := 5\<rparr>) = Some pv
          \<and> Some (exEmitterRoot\<lparr>pdfBackward := 1\<rparr>) = Some (pv\<lparr>pdfBackward := x\<rparr>))"
proof -
  let ?res = "\<lparr>sr_ok = False, sr_this = exEmitterVertex,
          sr_state = exState\<lparr>st_sampler := 1, st_bounce := 4\<rparr>,
          sr_prev = Some (exEmitterRoot\<lparr>pdfBackward := 1\<rparr>), sr_next = None, sr_nextEdge = None\<rparr>"
  have run: "scatter exDark exTracer 7 exEmitterVertex (exState\<lparr>st_bounce := 4\<rparr>)
      (Some (exEmitterRoot\<lparr>pdfBackward := 5\<rparr>)) None = Inr ?res"
    by (simp add: scatter_def ebind_def scatterSwitch_def scatterTail_def scatterFailed_def exDark_def
        exEmitterVertex_def exEmitter_def exState_def exEmitterRoot_def exDirection_def exPoint_def
        Ray2_def Let_def)
  have no: "\<not> sr_ok ?res" by simp
  have ne: "Some (exEmitterRoot\<lparr>pdfBackward := 1\<rparr>) \<noteq> Some (exEmitterRoot\<lparr>pdfBackward := 5\<rparr>)"
    by (simp add: exEmitterRoot_def)
  from scatter_failure_frame [OF run no] ne
  have "\<exists>pv x. Some (exEmitterRoot\<lparr>pdfBackward := 5\<rparr>) = Some pv
          \<and> Some (exEmitterRoot\<lparr>pdfBackward := 1\<rparr>) = Some (pv\<lparr>pdfBackward := x\<rparr>)"
    by simp
  then show ?thesis using run by simp
qed

text \<open>
  Claim C9. After every successful \<^verbatim>\<open>scatter\<close> that commits a surface vertex to
  \<open>next\<close>, the pointer \<open>info\<close> inside the scatter event of \<open>next\<close> holds the address
  of the intersection record of the object \<open>next\<close> itself (at \<open>nextAddr\<close>), whatever
  \<^verbatim>\<open>makeLocalScatterEvent\<close> had stored there, and not the address of the record that
  is local to the call.
\<close>

theorem scatter_rehomes_info_pointer:
  assumes "scatter scene tracer nextAddr this state prev prevEdge = Inr res"
    and "sr_ok res" "sr_next res = Some nxt" "kind nxt = SurfaceVertex bsdf r"
  shows "ev_info (s_event r) = InfoOfVertex nextAddr \<and> ev_info (s_event r) \<noteq> InfoOfScatterLocal"
proof -
  from scatter_cases [OF assms(1)] have "ev_info (s_event r) = InfoOfVertex nextAddr"
  proof
    assume "scatterSwitch tracer this state prev prevEdge = Inr (Return res)"
    from scatterSwitch_Return [OF this] assms(3,4) show ?thesis by blast
  next
    assume "\<exists>pdf0 this1 state1 prev1.
            scatterSwitch tracer this state prev prevEdge = Inr (Break pdf0 this1 state1 prev1)
          \<and> res = scatterTail scene tracer nextAddr pdf0 this1 state1 prev1"
    then obtain pdf0 this1 state1 prev1 where
      res: "res = scatterTail scene tracer nextAddr pdf0 this1 state1 prev1"
      by blast
    have "fst (intersect scene (st_ray state1))"
    proof (rule ccontr)
      assume "\<not> fst (intersect scene (st_ray state1))"
      from scatterTail_miss [OF this, of tracer nextAddr pdf0 this1 prev1] res assms(2)
      show False by simp
    qed
    from scatterTail_hit [OF this, of tracer nextAddr pdf0 this1 prev1] res assms(3,4)
    show ?thesis by auto
  qed
  then show ?thesis by simp
qed

theorem scatter_rehomes_info_pointer_witness:
  "ev_info (le_event (makeLocalScatterEvent exTracer 0 exInfo (Ray2 vzero unitX) 1 0)) = InfoOfScatterLocal
   \<and> scatter exScene exTracer 7 exEmitterVertex exState (Some exEmitterRoot) None =
       Inr \<lparr>sr_ok = True, sr_this = exEmitterVertex,
            sr_state = exState\<lparr>st_sampler := 1, st_bounce := 1\<rparr>,
            sr_prev = Some exEmitterRoot,
            sr_next = Some \<lparr>kind = SurfaceVertex exBsdf
                                \<lparr>s_event = exEvent\<lparr>ev_info := InfoOfVertex 7\<rparr>, s_data = 0, s_info = exInfo\<rparr>,
                             throughput = Vec3f 2 2 2, pdfForward = 3, pdfBackward = 0\<rparr>,
            sr_nextEdge = Some exEdge\<rparr>
   \<and> ev_info (s_event \<lparr>s_event = exEvent\<lparr>ev_info := InfoOfVertex 7\<rparr>, s_data = 0, s_info = exInfo\<rparr>)
       = InfoOfVertex 7"
proof -
  let ?nxt = "\<lparr>kind = SurfaceVertex exBsdf
                \<lparr>s_event = exEvent\<lparr>ev_info := InfoOfVertex 7\<rparr>, s_data = 0, s_info = exInfo\<rparr>,
              throughput = Vec3f 2 2 2, pdfForward = 3, pdfBackward = 0\<rparr>"
  let ?res = "\<lparr>sr_ok = True, sr_this = exEmitterVertex,
            sr_state = exState\<lparr>st_sampler := 1, st_bounce := 1\<rparr>,
            sr_prev = Some exEmitterRoot, sr_next = Some ?nxt, sr_nextEdge = Some exEdge\<rparr>"
  have local: "ev_info (le_event (makeLocalScatterEvent exTracer 0 exInfo (Ray2 vzero unitX) 1 0))
      = InfoOfScatterLocal"
    by (simp add: exTracer_def exEvent_def)
  have run: "scatter exScene exTracer 7 exEmitterVertex exState (Some exEmitterRoot) None = Inr ?res"
    by (simp add: scatter_def ebind_def scatterSwitch_def scatterTail_def exScene_def exTracer_def
        exState_def Ray2_def Let_def mkPathVertex_def mkPathEdge_def pos_def cosineFactor_def weight_def
        exInfo_def exEmitterVertex_def exEmitter_def exEmitterRoot_def exDirection_def exPoint_def
        exEdge_def unitX_def vzero_def vone_def)
  have "sr_ok ?res" "sr_next ?res = Some ?nxt"
    "kind ?nxt = SurfaceVertex exBsdf \<lparr>s_event = exEvent\<lparr>ev_info := InfoOfVertex 7\<rparr>, s_data = 0, s_info = exInfo\<rparr>"
    by simp_all
  from scatter_rehomes_info_pointer [OF run this]
  show ?thesis using local run by simp
qed

end
